theory Spec2Isabelle
  imports Main
begin

section \<open>Python strings and POSIX paths\<close>

text \<open>
  Strings are lists of characters. The functions below are the string methods and the
  \<^verbatim>\<open>os.path\<close> (posixpath) functions that \<^verbatim>\<open>drone_makeflow.py\<close> calls.
\<close>

definition startswith :: "string \<Rightarrow> string \<Rightarrow> bool" where
  "startswith s p = (take (length p) s = p)"

definition endswith :: "string \<Rightarrow> string \<Rightarrow> bool" where
  "endswith s p = (length p \<le> length s \<and> drop (length s - length p) s = p)"

text \<open>
  \<^verbatim>\<open>str.lower\<close> on ASCII: the capital letters map to the small ones. It serves the test
  of a file name against the ASCII literal \<^verbatim>\<open>.yaml\<close>; the key lookup, which lower-cases
  arbitrary keys, takes \<^verbatim>\<open>str.lower\<close> as a parameter instead.
\<close>

definition lower_char :: "char \<Rightarrow> char" where
  "lower_char c =
     (case map_of (zip ''ABCDEFGHIJKLMNOPQRSTUVWXYZ'' ''abcdefghijklmnopqrstuvwxyz'') c of
        Some l \<Rightarrow> l
      | None \<Rightarrow> c)"

definition lower :: "string \<Rightarrow> string" where
  "lower s = map lower_char s"

definition lstrip :: "string \<Rightarrow> string \<Rightarrow> string" where
  "lstrip s chars = dropWhile (\<lambda>c. c \<in> set chars) s"

definition rstrip :: "string \<Rightarrow> string \<Rightarrow> string" where
  "rstrip s chars = rev (dropWhile (\<lambda>c. c \<in> set chars) (rev s))"

text \<open>The two characters of the Python literal \<^verbatim>\<open>'/\\'\<close>: slash and backslash.\<close>

definition slashes :: string where
  "slashes = [CHR ''/'', CHR 0x5C]"

text \<open>
  \<^verbatim>\<open>posixpath.join(a, *p)\<close>: a component that starts with a slash restarts the path,
  otherwise it is appended, with a separator unless the path so far is empty or ends
  with one.
\<close>

definition join_step :: "string \<Rightarrow> string \<Rightarrow> string" where
  "join_step path b =
     (if startswith b ''/'' then b
      else if path = [] \<or> endswith path ''/'' then path @ b
      else path @ ''/'' @ b)"

definition path_join :: "string \<Rightarrow> string list \<Rightarrow> string" where
  "path_join a p = foldl join_step a p"

text \<open>\<^verbatim>\<open>posixpath.basename(p)\<close>: what follows the last slash.\<close>

definition basename :: "string \<Rightarrow> string" where
  "basename p = rev (takeWhile (\<lambda>c. c \<noteq> CHR ''/'') (rev p))"

text \<open>
  \<^verbatim>\<open>posixpath.splitext(p)\<close>: the extension starts at the last dot of the last path
  component, provided some character other than a dot precedes it in that component.
\<close>

definition splitext :: "string \<Rightarrow> string \<times> string" where
  "splitext p =
     (let file = basename p;
          ext = rev (takeWhile (\<lambda>c. c \<noteq> CHR ''.'') (rev file));
          stem = take (length file - length ext - 1) file
      in if CHR ''.'' \<in> set file \<and> (\<exists>c \<in> set stem. c \<noteq> CHR ''.'')
         then (take (length p - length ext - 1) p, CHR ''.'' # ext)
         else (p, []))"

section \<open>Data model\<close>

text \<open>
  Every exception the module can raise is a value. \<open>RuntimeError\<close> carries its message, a
  formatted one up to its first placeholder. \<open>NotModelled\<close> marks an input on which this
  model does not say what Python does.
\<close>

datatype error =
    RuntimeError string
  | KeyError string
  | AttributeError
  | TypeError
  | ValueError
  | IndexError
  | OSError
  | HTTPError
  | NotModelled

text \<open>
  Parsed JSON and YAML documents. A mapping keeps its items in insertion order, as a
  Python dict does. A key is a string or, in a YAML document, an integer, a truth value or
  null. Floating-point numbers and dates are left out.
\<close>

datatype jkey = KStr string | KInt int | KBool bool | KNull

datatype jvalue =
    JNull
  | JBool bool
  | JInt int
  | JStr string
  | JList "jvalue list"
  | JDict "(jkey \<times> jvalue) list"

type_synonym jdict = "(jkey \<times> jvalue) list"

text \<open>One entry of the module's \<^verbatim>\<open>WORKFLOW\<close> list.\<close>

record workflow_step =
  step_name :: string
  makeflow_file :: string
  docker_version_number :: string
  arguments :: "string option"
  return_code_success :: "jvalue \<Rightarrow> error + bool"
  force_dataset :: bool
  dataset_name_template :: "string option"

text \<open>
  The request's resource: the local paths of its files and, for publishing, the
  optional identity of the dataset or file the request came from.
\<close>

record parent_info =
  parent_type :: "string option"
  parent_id :: "string option"

record resources =
  local_paths :: "string list"
  res_type :: "string option"
  res_id :: "string option"
  res_parent :: "parent_info option"

text \<open>The dict that \<^verbatim>\<open>create_env_json\<close> builds, later written out as \<^verbatim>\<open>env.json\<close>.\<close>

record step_env =
  IMAGE_MOUNT_SOURCE :: string
  DOCKER_VERSION :: string
  BASE_DIR :: string
  RELATIVE_WORKING_FOLDER :: string
  CACHE_DIR :: string
  DATA_FOLDER_NAME :: string
  EXPERIMENT_METADATA_FILENAME :: string
  RESULTS_FILE_PATH :: string

section \<open>The environment builder\<close>

text \<open>
  \<^verbatim>\<open>__internal__.create_env_json\<close>. The loop over \<^verbatim>\<open>resources['local_paths']\<close> that
  stops at the first name whose lower-cased form ends in \<^verbatim>\<open>.yaml\<close> is \<^const>\<open>find\<close>; the
  test \<^verbatim>\<open>if found_experiment:\<close> is false for \<^verbatim>\<open>None\<close> and for the empty string.
\<close>

definition is_experiment_file :: "string \<Rightarrow> bool" where
  "is_experiment_file one_file = endswith (lower one_file) ''.yaml''"

definition create_env_json ::
  "string \<Rightarrow> string \<Rightarrow> string \<Rightarrow> workflow_step \<Rightarrow> resources \<Rightarrow> error + step_env" where
  "create_env_json out_folder image_subfolder mount_volume_name workflow_step rsrc =
     (let data_folder_name =
            lstrip (fst (splitext (basename (makeflow_file workflow_step)))) slashes;
          base_dir = ''/mnt/'';
          relative_working_folder =
            rstrip (lstrip (path_join image_subfolder [data_folder_name]) slashes) slashes @ ''/'';
          cache_dir = path_join base_dir [relative_working_folder, ''cache''] @ ''/'';
          data_folder = lstrip (path_join relative_working_folder [''images'']) slashes;
          found_experiment = find is_experiment_file (local_paths rsrc)
      in case found_experiment of
           None \<Rightarrow> Inl (RuntimeError ''Unable to find an experiment JSON file'')
         | Some one_file \<Rightarrow>
             if one_file = [] then Inl (RuntimeError ''Unable to find an experiment JSON file'')
             else Inr \<lparr> IMAGE_MOUNT_SOURCE = mount_volume_name,
                        DOCKER_VERSION = docker_version_number workflow_step,
                        BASE_DIR = base_dir,
                        RELATIVE_WORKING_FOLDER = relative_working_folder,
                        CACHE_DIR = cache_dir,
                        DATA_FOLDER_NAME = data_folder,
                        EXPERIMENT_METADATA_FILENAME = basename one_file,
                        RESULTS_FILE_PATH = path_join out_folder [''results.json''] \<rparr>)"

section \<open>Python operations on parsed documents\<close>

definition py_truthy :: "jvalue \<Rightarrow> bool" where
  "py_truthy v =
     (case v of JNull \<Rightarrow> False | JBool b \<Rightarrow> b | JInt n \<Rightarrow> n \<noteq> 0 | JStr s \<Rightarrow> s \<noteq> []
      | JList xs \<Rightarrow> xs \<noteq> [] | JDict d \<Rightarrow> d \<noteq> [])"

fun contains_str :: "string \<Rightarrow> string \<Rightarrow> bool" where
  "contains_str [] sub = (sub = [])"
| "contains_str (c # cs) sub = (startswith (c # cs) sub \<or> contains_str cs sub)"

definition py_in :: "string \<Rightarrow> jvalue \<Rightarrow> error + bool" where
  "py_in k v =
     (case v of
        JDict d \<Rightarrow> Inr (KStr k \<in> set (map fst d))
      | JList xs \<Rightarrow> Inr (JStr k \<in> set xs)
      | JStr s \<Rightarrow> Inr (contains_str s k)
      | _ \<Rightarrow> Inl TypeError)"

definition py_getitem :: "jvalue \<Rightarrow> string \<Rightarrow> error + jvalue" where
  "py_getitem v k =
     (case v of
        JDict d \<Rightarrow> (case map_of d (KStr k) of Some x \<Rightarrow> Inr x | None \<Rightarrow> Inl (KeyError k))
      | _ \<Rightarrow> Inl TypeError)"

text \<open>Iterating over a mapping gives its keys.\<close>

definition key_value :: "jkey \<Rightarrow> jvalue" where
  "key_value k = (case k of KStr s \<Rightarrow> JStr s | KInt n \<Rightarrow> JInt n | KBool b \<Rightarrow> JBool b | KNull \<Rightarrow> JNull)"

definition py_iter :: "jvalue \<Rightarrow> error + jvalue list" where
  "py_iter v =
     (case v of
        JList xs \<Rightarrow> Inr xs
      | JDict d \<Rightarrow> Inr (map (\<lambda>kv. key_value (fst kv)) d)
      | JStr s \<Rightarrow> Inr (map (\<lambda>c. JStr [c]) s)
      | _ \<Rightarrow> Inl TypeError)"

definition dict_set :: "'k \<Rightarrow> 'v \<Rightarrow> ('k \<times> 'v) list \<Rightarrow> ('k \<times> 'v) list" where
  "dict_set k v d =
     (if k \<in> set (map fst d) then map (\<lambda>kv. if fst kv = k then (k, v) else kv) d
      else d @ [(k, v)])"

definition py_str :: "(jvalue \<Rightarrow> string) \<Rightarrow> jvalue \<Rightarrow> string" where
  "py_str py_repr v = (case v of JStr s \<Rightarrow> s | _ \<Rightarrow> py_repr v)"

text \<open>
  \<^verbatim>\<open>int(s)\<close> for a string: white space around it is dropped, a sign may lead, and the
  digits may be separated by single underscores; anything else raises \<open>ValueError\<close>. A
  string with a character that is neither printable ASCII nor one of tab, line feed,
  vertical tab, form feed and carriage return is left out.
\<close>

definition ascii_space :: string where
  "ascii_space = [CHR 0x09, CHR 0x0A, CHR 0x0B, CHR 0x0C, CHR 0x0D, CHR 0x20]"

definition modelled_char :: "char \<Rightarrow> bool" where
  "modelled_char c =
     (c \<in> set ascii_space \<or> (32 \<le> (of_char c :: nat) \<and> (of_char c :: nat) \<le> 126))"

definition digit_of :: "char \<Rightarrow> int option" where
  "digit_of c = map_of (zip ''0123456789'' [0, 1, 2, 3, 4, 5, 6, 7, 8, 9]) c"

text \<open>The first argument says whether the character before was a digit.\<close>

fun parse_digits :: "bool \<Rightarrow> int \<Rightarrow> string \<Rightarrow> int option" where
  "parse_digits after_digit acc [] = (if after_digit then Some acc else None)"
| "parse_digits after_digit acc (c # cs) =
     (case digit_of c of
        Some n \<Rightarrow> parse_digits True (acc * 10 + n) cs
      | None \<Rightarrow> if c = CHR ''_'' \<and> after_digit then parse_digits False acc cs else None)"

definition py_int_of_str :: "string \<Rightarrow> error + int" where
  "py_int_of_str s =
     (if \<exists>c \<in> set s. \<not> modelled_char c then Inl NotModelled
      else let t = rstrip (lstrip s ascii_space) ascii_space;
               parsed =
                 (case t of
                    [] \<Rightarrow> None
                  | c # cs \<Rightarrow>
                      if c = CHR ''+'' then parse_digits False 0 cs
                      else if c = CHR ''-'' then map_option uminus (parse_digits False 0 cs)
                      else parse_digits False 0 t)
           in case parsed of None \<Rightarrow> Inl ValueError | Some n \<Rightarrow> Inr n)"

definition py_int :: "jvalue \<Rightarrow> error + int" where
  "py_int v =
     (case v of
        JInt n \<Rightarrow> Inr n
      | JBool b \<Rightarrow> Inr (if b then 1 else 0)
      | JStr s \<Rightarrow> py_int_of_str s
      | _ \<Rightarrow> Inl TypeError)"

section \<open>Securing a password\<close>

text \<open>
  \<^verbatim>\<open>__internal__.secure_string\<close>. The encryption \<^verbatim>\<open>encrypt_pipeline_string\<close> belongs to another
  package and is a parameter: it is handed whatever value the caller has and answers a
  text or \<^verbatim>\<open>None\<close>.
\<close>

definition secure_string :: "(jvalue \<Rightarrow> string option) \<Rightarrow> jvalue \<Rightarrow> string" where
  "secure_string encrypt_pipeline_string plain_text =
     (case encrypt_pipeline_string plain_text of
        Some encrypted \<Rightarrow> ''secured:'' @ encrypted
      | None \<Rightarrow> ''<removed>'')"

section \<open>Key lookup\<close>

text \<open>
  \<^verbatim>\<open>__internal__.find_dict_key\<close>. \<^verbatim>\<open>str.lower\<close> on arbitrary text is the parameter
  \<open>py_lower\<close>. \<open>scan_level\<close> is the first loop: a key that is not a string never equals
  the key searched for, and under \<^verbatim>\<open>case_insensitive\<close> the call \<^verbatim>\<open>one_key.lower()\<close> raises
  \<open>AttributeError\<close> on it. The last argument is \<^verbatim>\<open>dict_checks\<close>.
\<close>

fun scan_level ::
  "(string \<Rightarrow> string) \<Rightarrow> string \<Rightarrow> bool \<Rightarrow> jdict \<Rightarrow> jdict list
   \<Rightarrow> error + (jkey \<times> jvalue) option \<times> jdict list" where
  "scan_level py_lower check_key case_insensitive [] dict_checks = Inr (None, dict_checks)"
| "scan_level py_lower check_key case_insensitive ((one_key, v) # rest) dict_checks =
     (case one_key of
        KStr s \<Rightarrow>
          if s = check_key \<or> (case_insensitive \<and> py_lower s = check_key)
          then Inr (Some (one_key, v), dict_checks)
          else scan_level py_lower check_key case_insensitive rest
                 (case v of JDict d \<Rightarrow> dict_checks @ [d] | _ \<Rightarrow> dict_checks)
      | _ \<Rightarrow>
          if case_insensitive then Inl AttributeError
          else scan_level py_lower check_key case_insensitive rest
                 (case v of JDict d \<Rightarrow> dict_checks @ [d] | _ \<Rightarrow> dict_checks))"

definition weight :: "jdict \<Rightarrow> nat" where
  "weight d = size (JDict d)"

lemma weight_pos: "0 < weight d"
  by (simp add: weight_def)

lemma weight_Cons_dict: "weight d + weight rest + 1 \<le> weight ((k, JDict d) # rest)"
  by (simp add: weight_def)

lemma weight_Cons_le: "weight rest \<le> weight ((k, v) # rest)"
  by (simp add: weight_def)

lemma scan_level_step:
  "scan_level py_lower ck ci ((k, v) # h) acc = Inr (r, dcs) \<Longrightarrow>
   (r = Some (k, v) \<and> dcs = acc) \<or>
   scan_level py_lower ck ci h (case v of JDict d \<Rightarrow> acc @ [d] | _ \<Rightarrow> acc) = Inr (r, dcs)"
  by (cases k) (auto split: if_splits)

lemma scan_level_weight:
  "scan_level py_lower ck ci h acc = Inr (r, dcs) \<Longrightarrow>
   sum_list (map weight dcs) + 1 \<le> sum_list (map weight acc) + weight h"
proof (induction h arbitrary: acc)
  case Nil
  then show ?case using weight_pos [of "[]"] by simp
next
  case (Cons kv h)
  obtain k v where kv: "kv = (k, v)" by (cases kv)
  from scan_level_step [of py_lower ck ci k v h acc r dcs] Cons.prems kv
  consider "dcs = acc"
    | "scan_level py_lower ck ci h (case v of JDict d \<Rightarrow> acc @ [d] | _ \<Rightarrow> acc) = Inr (r, dcs)"
    by auto
  then show ?case
  proof cases
    case 1
    then show ?thesis using weight_pos [of "kv # h"] by simp
  next
    case 2
    show ?thesis
    proof (cases "\<exists>d. v = JDict d")
      case True
      then obtain d where d: "v = JDict d" by blast
      with 2 have "scan_level py_lower ck ci h (acc @ [d]) = Inr (r, dcs)" by simp
      from Cons.IH [OF this] show ?thesis
        using kv d weight_Cons_dict [of d h k] by simp
    next
      case False
      then have "(case v of JDict d \<Rightarrow> acc @ [d] | _ \<Rightarrow> acc) = acc"
        by (cases v) auto
      with 2 have "scan_level py_lower ck ci h acc = Inr (r, dcs)" by simp
      from Cons.IH [OF this] show ?thesis
        using kv weight_Cons_le [of h k v] by simp
    qed
  qed
qed

function find_dict_key ::
    "(string \<Rightarrow> string) \<Rightarrow> jdict \<Rightarrow> string \<Rightarrow> bool \<Rightarrow> error + (jkey \<times> jvalue) option"
  and search_checks ::
    "(string \<Rightarrow> string) \<Rightarrow> jdict list \<Rightarrow> string \<Rightarrow> error + (jkey \<times> jvalue) option" where
  "find_dict_key py_lower haystack key case_insensitive =
     (let check_key = (if case_insensitive then py_lower key else key) in
      case scan_level py_lower check_key case_insensitive haystack [] of
        Inl e \<Rightarrow> Inl e
      | Inr (Some found, dict_checks) \<Rightarrow> Inr (Some found)
      | Inr (None, dict_checks) \<Rightarrow> search_checks py_lower dict_checks check_key)"
| "search_checks py_lower [] check_key = Inr None"
| "search_checks py_lower (one_check # rest) check_key =
     (case find_dict_key py_lower one_check check_key False of
        Inl e \<Rightarrow> Inl e
      | Inr (Some found) \<Rightarrow> Inr (Some found)
      | Inr None \<Rightarrow> search_checks py_lower rest check_key)"
  by pat_completeness auto
termination
  apply (relation "measure (\<lambda>x. case x of
          Inl (f, h, k, ci) \<Rightarrow> 2 * weight h
        | Inr (f, cs, k) \<Rightarrow> 2 * sum_list (map weight cs) + 1)")
     apply simp
    apply (auto dest!: scan_level_weight simp: weight_pos)
  done


section \<open>Dataset names\<close>

text \<open>
  \<^verbatim>\<open>template.format(**experiment_info)\<close> for templates made of literal text, the
  escapes \<^verbatim>\<open>{{\<close> and \<^verbatim>\<open>}}\<close>, and replacement fields \<^verbatim>\<open>{key}\<close> that name a keyword.
  A field with a conversion, a format specification, an attribute, an index or a
  number is outside this model, which answers \<open>NotModelled\<close> for it. The second
  argument of \<open>format_scan\<close> is the field being read, if any. Passing a mapping as
  keywords raises \<open>TypeError\<close> when one of its keys is not a string.
\<close>

fun keyword_args :: "(jkey \<times> string) list \<Rightarrow> (string \<times> string) list option" where
  "keyword_args [] = Some []"
| "keyword_args ((k, v) # rest) =
     (case k of
        KStr s \<Rightarrow> map_option (\<lambda>kw. (s, v) # kw) (keyword_args rest)
      | _ \<Rightarrow> None)"

definition format_field :: "(string \<times> string) list \<Rightarrow> string \<Rightarrow> error + string" where
  "format_field kwargs field =
     (if field = [] then Inl IndexError
      else if \<forall>c \<in> set field. c \<in> set ''0123456789'' then Inl NotModelled
      else case map_of kwargs field of
             Some v \<Rightarrow> Inr v
           | None \<Rightarrow> Inl (KeyError field))"

definition and_then :: "error + string \<Rightarrow> (string \<Rightarrow> string) \<Rightarrow> error + string" where
  "and_then r f = (case r of Inl e \<Rightarrow> Inl e | Inr s \<Rightarrow> Inr (f s))"

fun format_scan :: "(string \<times> string) list \<Rightarrow> string option \<Rightarrow> string \<Rightarrow> error + string" where
  "format_scan kwargs None [] = Inr []"
| "format_scan kwargs None (c # cs) =
     (if c = CHR ''{'' then
        (case cs of
           [] \<Rightarrow> Inl ValueError
         | c' # cs' \<Rightarrow>
             if c' = CHR ''{'' then and_then (format_scan kwargs None cs') (\<lambda>s. CHR ''{'' # s)
             else format_scan kwargs (Some []) cs)
      else if c = CHR ''}'' then
        (case cs of
           [] \<Rightarrow> Inl ValueError
         | c' # cs' \<Rightarrow>
             if c' = CHR ''}'' then and_then (format_scan kwargs None cs') (\<lambda>s. CHR ''}'' # s)
             else Inl ValueError)
      else and_then (format_scan kwargs None cs) (\<lambda>s. c # s))"
| "format_scan kwargs (Some field) [] = Inl ValueError"
| "format_scan kwargs (Some field) (c # cs) =
     (if c = CHR ''}'' then
        (case format_field kwargs field of
           Inl e \<Rightarrow> Inl e
         | Inr v \<Rightarrow> and_then (format_scan kwargs None cs) (\<lambda>s. v @ s))
      else if c = CHR ''{'' then Inl ValueError
      else if c \<in> set ''!:.['' then Inl NotModelled
      else format_scan kwargs (Some (field @ [c])) cs)"

definition py_format :: "string \<Rightarrow> (jkey \<times> string) list \<Rightarrow> error + string" where
  "py_format template kwargs =
     (case keyword_args kwargs of
        None \<Rightarrow> Inl TypeError
      | Some kw \<Rightarrow> format_scan kw None template)"

text \<open>The first statement of \<^verbatim>\<open>__internal__.process_result_dataset\<close>.\<close>

definition dataset_name :: "workflow_step \<Rightarrow> (jkey \<times> string) list \<Rightarrow> error + string" where
  "dataset_name workflow_step experiment_info =
     (case dataset_name_template workflow_step of
        Some template \<Rightarrow> py_format template experiment_info
      | None \<Rightarrow> py_format ''{name}_{date}_{experiment}'' experiment_info)"

text \<open>The module's \<^verbatim>\<open>WORKFLOW\<close>. Its success test is \<^verbatim>\<open>lambda code: int(code) == 0\<close>.\<close>

definition code_is_zero :: "jvalue \<Rightarrow> error + bool" where
  "code_is_zero code = (case py_int code of Inl e \<Rightarrow> Inl e | Inr n \<Rightarrow> Inr (n = 0))"

definition WORKFLOW :: "workflow_step list" where
  "WORKFLOW =
     [\<lparr> step_name = ''OpenDroneMap workflow'',
        makeflow_file = ''odm_workflow.jx'',
        docker_version_number = ''2.0'',
        arguments = None,
        return_code_success = code_is_zero,
        force_dataset = True,
        dataset_name_template = Some ''{date}_{experiment}_{name}'' \<rparr>,
      \<lparr> step_name = ''Soil Mask workflow'',
        makeflow_file = ''soil_mask_workflow.jx'',
        docker_version_number = ''2.0'',
        arguments = None,
        return_code_success = code_is_zero,
        force_dataset = False,
        dataset_name_template = Some ''{date}_{experiment}_{name}'' \<rparr>]"

section \<open>Reading the experiment descriptor\<close>

text \<open>
  The body of the \<^verbatim>\<open>with open(experiment_path)\<close> block of \<^verbatim>\<open>process_message\<close>, after the
  file is parsed. \<open>workstep_password\<close> is the \<^verbatim>\<open>'password'\<close> entry of
  \<^verbatim>\<open>workstep_metadata\<close>, which the copied step does not have at first. A tuple returned by
  \<^verbatim>\<open>find_dict_key\<close> is always true in an \<^verbatim>\<open>if\<close>. Calling \<^verbatim>\<open>.items()\<close> on a value that is
  not a mapping raises \<open>AttributeError\<close>. The three lookups are made, in the order space,
  username, password, before anything is written. The text that \<^verbatim>\<open>str\<close> gives for a value
  that is not a string is the parameter \<open>py_repr\<close>.
\<close>

record reconciled =
  experiment_info :: "(jkey \<times> string) list"
  clowder_info :: jdict
  workstep_password :: "jvalue option"

definition load_experiment_info :: "(jvalue \<Rightarrow> string) \<Rightarrow> jdict \<Rightarrow> (jkey \<times> string) list" where
  "load_experiment_info py_repr experiment_metadata =
     fold (\<lambda>kv info. dict_set (fst kv) (py_str py_repr (snd kv)) info) experiment_metadata []"

definition write_credentials ::
  "(jvalue \<Rightarrow> string option) \<Rightarrow> (jkey \<times> jvalue) option \<Rightarrow> (jkey \<times> jvalue) option
   \<Rightarrow> (jkey \<times> jvalue) option \<Rightarrow> jdict \<times> jvalue option" where
  "write_credentials encrypt space username password =
     (let after_space =
            (case space of
               Some s \<Rightarrow> ([(KStr ''space'', snd s)], Some (snd s))
             | None \<Rightarrow> ([], None));
          after_username =
            (case username of
               Some u \<Rightarrow> (dict_set (KStr ''username'') (snd u) (fst after_space), Some (snd u))
             | None \<Rightarrow> after_space)
      in case password of
           Some p \<Rightarrow>
             (dict_set (KStr ''password'') (snd p) (fst after_username),
              Some (JStr (secure_string encrypt (snd p))))
         | None \<Rightarrow> after_username)"

definition clowder_credentials ::
  "(string \<Rightarrow> string) \<Rightarrow> (jvalue \<Rightarrow> string option) \<Rightarrow> jvalue
   \<Rightarrow> error + jdict \<times> jvalue option" where
  "clowder_credentials py_lower encrypt clowder_value =
     (case clowder_value of
        JDict clowder \<Rightarrow>
          (case find_dict_key py_lower clowder ''space'' True of
             Inl e \<Rightarrow> Inl e
           | Inr space \<Rightarrow>
               (case find_dict_key py_lower clowder ''username'' True of
                  Inl e \<Rightarrow> Inl e
                | Inr username \<Rightarrow>
                    (case find_dict_key py_lower clowder ''password'' True of
                       Inl e \<Rightarrow> Inl e
                     | Inr password \<Rightarrow>
                         Inr (write_credentials encrypt space username password))))
      | _ \<Rightarrow> Inl AttributeError)"

definition read_experiment_metadata ::
  "(string \<Rightarrow> string) \<Rightarrow> (jvalue \<Rightarrow> string option) \<Rightarrow> (jvalue \<Rightarrow> string) \<Rightarrow> jvalue
   \<Rightarrow> error + reconciled" where
  "read_experiment_metadata py_lower encrypt py_repr experiment_metadata =
     (if \<not> py_truthy experiment_metadata
      then Inr \<lparr> experiment_info = [], clowder_info = [], workstep_password = None \<rparr>
      else case experiment_metadata of
             JDict d \<Rightarrow>
               (case find_dict_key py_lower d ''clowder'' True of
                  Inl e \<Rightarrow> Inl e
                | Inr None \<Rightarrow>
                    Inr \<lparr> experiment_info = load_experiment_info py_repr d,
                          clowder_info = [], workstep_password = None \<rparr>
                | Inr (Some clowder_md) \<Rightarrow>
                    (case clowder_credentials py_lower encrypt (snd clowder_md) of
                       Inl e \<Rightarrow> Inl e
                     | Inr creds \<Rightarrow>
                         Inr \<lparr> experiment_info = load_experiment_info py_repr d,
                               clowder_info = fst creds,
                               workstep_password = snd creds \<rparr>))
           | _ \<Rightarrow> Inl AttributeError)"

text \<open>The loader is chosen by the extension of the experiment file.\<close>

datatype loader = YamlSafeLoad | JsonLoad

definition load_func :: "string \<Rightarrow> loader" where
  "load_func experiment_path =
     (if snd (splitext experiment_path) \<in> {''.yml'', ''.yaml''} then YamlSafeLoad else JsonLoad)"

section \<open>The outside world\<close>

text \<open>
  Every call that leaves the module (file system, clock, child process, the Clowder
  API) is an event, appended to a log; what the call answers is given by an oracle that
  sees the log so far, so that the same call can answer differently later. The event
  \<open>RelocateFiles\<close> is of another kind: \<^verbatim>\<open>relocate_files\<close> enters it itself, with the two
  arguments it was called with, before it does anything else. A computation either
  returns, raises, or runs out of fuel in a loop that has no bound of its own.
\<close>

datatype staging_source = FromResources resources | FromFolder string | NoSource

datatype event =
    RelocateFiles step_env staging_source
  | MakeDirs string
  | Chmod string
  | ListDir string
  | IsFile string
  | IsDir string
  | PathExists string
  | CopyFile string string
  | MkDTemp string
  | WriteEnvJson string step_env
  | Popen "string list"
  | ReadLine
  | Poll
  | Sleep nat
  | Now
  | LoadFile loader string
  | GetDatasetIdByName string
  | CreateDataset string string
  | UploadToDataset jvalue jvalue
  | DeleteFileMetadata jvalue
  | UploadFileMetadata jvalue jvalue
  | RemoveDatasetMetadata jvalue
  | UploadDatasetMetadata jvalue jvalue

datatype 'a outcome = Returns 'a | Raises error | OutOfFuel

type_synonym 'a io = "event list \<Rightarrow> 'a outcome \<times> event list"

record world =
  os_makedirs :: "event list \<Rightarrow> string \<Rightarrow> error + unit"
  os_chmod :: "event list \<Rightarrow> string \<Rightarrow> error + unit"
  os_listdir :: "event list \<Rightarrow> string \<Rightarrow> error + string list"
  os_path_isfile :: "event list \<Rightarrow> string \<Rightarrow> error + bool"
  os_path_isdir :: "event list \<Rightarrow> string \<Rightarrow> error + bool"
  os_path_exists :: "event list \<Rightarrow> string \<Rightarrow> error + bool"
  shutil_copyfile :: "event list \<Rightarrow> string \<Rightarrow> string \<Rightarrow> error + unit"
  tempfile_mkdtemp :: "event list \<Rightarrow> string \<Rightarrow> error + string"
  json_dump_env :: "event list \<Rightarrow> string \<Rightarrow> step_env \<Rightarrow> error + unit"
  subprocess_Popen :: "event list \<Rightarrow> string list \<Rightarrow> error + unit"
  stdout_readline :: "event list \<Rightarrow> error + string"
  proc_poll :: "event list \<Rightarrow> error + int option"
  time_sleep :: "event list \<Rightarrow> nat \<Rightarrow> error + unit"
  datetime_now :: "event list \<Rightarrow> error + int"
  load_file :: "event list \<Rightarrow> loader \<Rightarrow> string \<Rightarrow> error + jvalue"
  get_datasetid_by_name :: "event list \<Rightarrow> string \<Rightarrow> error + jvalue"
  post_createempty :: "event list \<Rightarrow> string \<Rightarrow> string \<Rightarrow> error + jvalue"
  upload_to_dataset :: "event list \<Rightarrow> jvalue \<Rightarrow> jvalue \<Rightarrow> error + jvalue"
  requests_delete :: "event list \<Rightarrow> jvalue \<Rightarrow> error + unit"
  files_upload_metadata :: "event list \<Rightarrow> jvalue \<Rightarrow> jvalue \<Rightarrow> error + unit"
  datasets_remove_metadata :: "event list \<Rightarrow> jvalue \<Rightarrow> error + unit"
  datasets_upload_metadata :: "event list \<Rightarrow> jvalue \<Rightarrow> jvalue \<Rightarrow> error + unit"

definition io_return :: "'a \<Rightarrow> 'a io" where
  "io_return x log = (Returns x, log)"

definition io_raise :: "error \<Rightarrow> 'a io" where
  "io_raise e log = (Raises e, log)"

definition io_bind :: "'a io \<Rightarrow> ('a \<Rightarrow> 'b io) \<Rightarrow> 'b io" where
  "io_bind m f log =
     (case m log of
        (Returns x, log') \<Rightarrow> f x log'
      | (Raises e, log') \<Rightarrow> (Raises e, log')
      | (OutOfFuel, log') \<Rightarrow> (OutOfFuel, log'))"

definition io_lift :: "error + 'a \<Rightarrow> 'a io" where
  "io_lift r = (case r of Inl e \<Rightarrow> io_raise e | Inr x \<Rightarrow> io_return x)"

definition io_call :: "event \<Rightarrow> (event list \<Rightarrow> error + 'a) \<Rightarrow> 'a io" where
  "io_call ev oracle log =
     (case oracle log of
        Inl e \<Rightarrow> (Raises e, log @ [ev])
      | Inr x \<Rightarrow> (Returns x, log @ [ev]))"

definition io_note :: "event \<Rightarrow> unit io" where
  "io_note ev log = (Returns (), log @ [ev])"

text \<open>\<^verbatim>\<open>try: ... except Exception: (log it)\<close>\<close>

definition io_ignore_errors :: "unit io \<Rightarrow> unit io" where
  "io_ignore_errors m log =
     (case m log of
        (Raises e, log') \<Rightarrow> (Returns (), log')
      | other \<Rightarrow> other)"

section \<open>Publishing results\<close>

text \<open>
  The Clowder calls are events; the URLs the module builds from the host, an id and the
  key are not spelled out. An id is whatever the service answered, \<open>JNull\<close> for
  Python's \<^verbatim>\<open>None\<close>.
\<close>

definition prepare_metadata ::
  "string \<Rightarrow> string \<Rightarrow> string \<Rightarrow> jvalue \<Rightarrow> jvalue \<Rightarrow> bool \<Rightarrow> error + jvalue" where
  "prepare_metadata host version creator_name metadata target_id target_is_dataset =
     (case py_in ''@context'' metadata of
        Inl e \<Rightarrow> Inl e
      | Inr has_context \<Rightarrow>
          if has_context then Inr metadata
          else Inr (JDict
            [(KStr ''@context'',
                JList [JStr ''https://clowder.ncsa.illinois.edu/contexts/metadata.jsonld'']),
             (KStr ''content'', metadata),
             (KStr ''agent'', JDict
                [(KStr ''@type'', JStr ''cat:extractor''),
                 (KStr ''extractor_id'',
                    JStr (host @ (if endswith host ''/'' then [] else ''/'')
                            @ ''api/extractors/'' @ creator_name)),
                 (KStr ''version'', JStr version),
                 (KStr ''name'', JStr creator_name)]),
             (KStr (if target_is_dataset then ''dataset_id'' else ''file_id''), target_id)]))"

text \<open>
  The lines that read \<^verbatim>\<open>'replace'\<close> and \<^verbatim>\<open>'data'\<close> from a metadata block; the module has
  them twice, in \<^verbatim>\<open>upload_files\<close> and in \<^verbatim>\<open>process_result_dataset\<close>.
\<close>

definition metadata_options :: "jvalue \<Rightarrow> error + bool \<times> jvalue" where
  "metadata_options md =
     (case py_in ''replace'' md of
        Inl e \<Rightarrow> Inl e
      | Inr has_replace \<Rightarrow>
          (case (if has_replace then py_getitem md ''replace'' else Inr (JBool True)) of
             Inl e \<Rightarrow> Inl e
           | Inr replace_value \<Rightarrow>
               (case py_in ''data'' md of
                  Inl e \<Rightarrow> Inl e
                | Inr has_data \<Rightarrow>
                    (case (if has_data then py_getitem md ''data'' else Inr md) of
                       Inl e \<Rightarrow> Inl e
                     | Inr working_metadata \<Rightarrow>
                         Inr (py_truthy replace_value, working_metadata)))))"

definition create_dataset :: "world \<Rightarrow> string \<Rightarrow> string \<Rightarrow> string \<Rightarrow> jvalue io" where
  "create_dataset w host request_key dataset_name' =
     io_bind (io_call (CreateDataset host dataset_name')
                (\<lambda>log. post_createempty w log host dataset_name'))
       (\<lambda>return_json.
     io_bind (io_lift (py_in ''id'' return_json))
       (\<lambda>has_id.
          if \<not> has_id
          then io_raise (RuntimeError
                 ''Return result from creating dataset has changed and is not supported'')
          else io_lift (py_getitem return_json ''id'')))"

definition update_file_metadata :: "world \<Rightarrow> jvalue \<Rightarrow> bool \<Rightarrow> jvalue \<Rightarrow> unit io" where
  "update_file_metadata w file_id replace_metadata metadata =
     io_ignore_errors
       (io_bind (if replace_metadata
                 then io_call (DeleteFileMetadata file_id) (\<lambda>log. requests_delete w log file_id)
                 else io_return ())
          (\<lambda>_. io_call (UploadFileMetadata file_id metadata)
                 (\<lambda>log. files_upload_metadata w log file_id metadata)))"

definition update_dataset_metadata ::
  "world \<Rightarrow> jvalue \<Rightarrow> bool \<Rightarrow> jvalue \<Rightarrow> jvalue \<Rightarrow> unit io" where
  "update_dataset_metadata w dataset_id replace_metadata container_metadata process_metadata =
     io_bind
       (if py_truthy container_metadata
        then io_bind (if replace_metadata
                      then io_call (RemoveDatasetMetadata dataset_id)
                             (\<lambda>log. datasets_remove_metadata w log dataset_id)
                      else io_return ())
               (\<lambda>_. io_call (UploadDatasetMetadata dataset_id container_metadata)
                      (\<lambda>log. datasets_upload_metadata w log dataset_id container_metadata))
        else io_return ())
       (\<lambda>_. if py_truthy process_metadata
            then io_call (UploadDatasetMetadata dataset_id process_metadata)
                   (\<lambda>log. datasets_upload_metadata w log dataset_id process_metadata)
            else io_return ())"

definition with_id :: "jvalue \<Rightarrow> jvalue \<Rightarrow> jvalue" where
  "with_id one_result file_id =
     (case one_result of JDict d \<Rightarrow> JDict (dict_set (KStr ''id'') file_id d) | other \<Rightarrow> other)"

fun upload_each ::
  "world \<Rightarrow> jvalue \<Rightarrow> workflow_step \<Rightarrow> string \<Rightarrow> jvalue list \<Rightarrow> jvalue list \<Rightarrow> jvalue list io" where
  "upload_each w dataset_id workflow_step host [] uploaded_files = io_return uploaded_files"
| "upload_each w dataset_id workflow_step host (one_result # rest) uploaded_files =
     io_bind (io_lift (py_getitem one_result ''path''))
       (\<lambda>path.
     io_bind (io_call (UploadToDataset dataset_id path)
                (\<lambda>log. upload_to_dataset w log dataset_id path))
       (\<lambda>file_id.
          if file_id = JNull
          then io_raise (RuntimeError ''Unable to upload file to dataset ID '')
          else
     io_bind (io_lift (py_in ''metadata'' one_result))
       (\<lambda>has_metadata.
     io_bind
       (if has_metadata
        then io_bind (io_lift (py_getitem one_result ''metadata''))
               (\<lambda>md.
             io_bind (io_lift (metadata_options md))
               (\<lambda>opts.
             io_bind (io_lift (prepare_metadata host (docker_version_number workflow_step)
                                 (makeflow_file workflow_step) (snd opts) file_id False))
               (\<lambda>prepared_metadata.
                  update_file_metadata w file_id (fst opts) prepared_metadata)))
        else io_return ())
       (\<lambda>_. upload_each w dataset_id workflow_step host rest
              (uploaded_files @ [with_id one_result file_id])))))"

definition upload_files ::
  "world \<Rightarrow> jvalue \<Rightarrow> jvalue \<Rightarrow> workflow_step \<Rightarrow> string \<Rightarrow> jvalue list io" where
  "upload_files w dataset_id file_results workflow_step host =
     io_bind (io_lift (py_iter file_results))
       (\<lambda>results. upload_each w dataset_id workflow_step host results [])"

definition resource_dataset_id :: "resources \<Rightarrow> string option" where
  "resource_dataset_id rsrc =
     (if res_type rsrc = Some ''dataset'' \<and> res_id rsrc \<noteq> None then res_id rsrc
      else if res_type rsrc = Some ''file'' \<and> res_parent rsrc \<noteq> None then
        (case res_parent rsrc of
           Some parent \<Rightarrow>
             if parent_type parent = Some ''dataset'' \<and> parent_id parent \<noteq> None
             then parent_id parent else None
         | None \<Rightarrow> None)
      else None)"

definition process_result_file ::
  "world \<Rightarrow> jvalue \<Rightarrow> workflow_step \<Rightarrow> string \<Rightarrow> resources \<Rightarrow> jvalue list io" where
  "process_result_file w file_results workflow_step host rsrc =
     (case resource_dataset_id rsrc of
        None \<Rightarrow> io_raise (RuntimeError ''Unable to find dataset ID to place files into'')
      | Some dataset_id \<Rightarrow> upload_files w (JStr dataset_id) file_results workflow_step host)"

fun upload_container_files ::
  "world \<Rightarrow> jvalue \<Rightarrow> jvalue \<Rightarrow> workflow_step \<Rightarrow> string \<Rightarrow> string list \<Rightarrow> jvalue list
   \<Rightarrow> jvalue list io" where
  "upload_container_files w dataset_id container_results workflow_step host [] uploaded_files =
     io_return uploaded_files"
| "upload_container_files w dataset_id container_results workflow_step host (key # keys)
     uploaded_files =
     io_bind (io_lift (py_in key container_results))
       (\<lambda>present.
          if present
          then io_bind (io_lift (py_getitem container_results key))
                 (\<lambda>file_results.
               io_bind (upload_files w dataset_id file_results workflow_step host)
                 (\<lambda>uploaded.
                    upload_container_files w dataset_id container_results workflow_step host
                      keys uploaded))
          else upload_container_files w dataset_id container_results workflow_step host
                 keys uploaded_files)"

definition process_result_dataset ::
  "world \<Rightarrow> jvalue \<Rightarrow> (jkey \<times> string) list \<Rightarrow> workflow_step \<Rightarrow> jvalue \<Rightarrow> string \<Rightarrow> string
   \<Rightarrow> jvalue io" where
  "process_result_dataset w container_results experiment_info' workflow_step process_metadata
     host request_key =
     io_bind (io_lift (dataset_name workflow_step experiment_info'))
       (\<lambda>name.
     io_bind (io_call (GetDatasetIdByName name) (\<lambda>log. get_datasetid_by_name w log name))
       (\<lambda>found_id.
     io_bind (if found_id = JNull
              then io_bind (create_dataset w host request_key name)
                     (\<lambda>new_id. io_return (new_id, True))
              else io_return (found_id, False))
       (\<lambda>ds.
     io_bind (upload_container_files w (fst ds) container_results workflow_step host
                [''file'', ''files''] [])
       (\<lambda>uploaded_files.
     io_bind (io_lift (py_in ''metadata'' container_results))
       (\<lambda>has_metadata.
     io_bind
       (if has_metadata
        then io_bind (io_lift (py_getitem container_results ''metadata''))
               (\<lambda>md.
             io_bind (io_lift (metadata_options md))
               (\<lambda>opts.
             io_bind (io_lift (prepare_metadata host (docker_version_number workflow_step)
                                 (makeflow_file workflow_step) (snd opts) (fst ds) True))
               (\<lambda>container_metadata. io_return (fst opts, container_metadata))))
        else io_return (True, JNull))
       (\<lambda>cm.
     io_bind
       (if py_truthy process_metadata
        then io_lift (prepare_metadata host (docker_version_number workflow_step)
                        (makeflow_file workflow_step) process_metadata (fst ds) True)
        else io_return JNull)
       (\<lambda>prepared_process_metadata.
     io_bind (update_dataset_metadata w (fst ds) (fst cm) (snd cm) prepared_process_metadata)
       (\<lambda>_. io_return
              (JList [JDict [(KStr ''id'', fst ds), (KStr ''created'', JBool (snd ds)),
                             (KStr ''file_ids'', JList uploaded_files)]])))))))))"

text \<open>
  \<^verbatim>\<open>__internal__.process_results_json\<close>. The keys of the process metadata come out of a
  Python set, whose order is not fixed; the model keeps them in document order.
\<close>

definition reserved_keys :: "string list" where
  "reserved_keys = [''container'', ''file'', ''files'', ''code'', ''error'', ''message'']"

definition process_metadata_of :: "jvalue \<Rightarrow> jvalue" where
  "process_metadata_of proc_results =
     (case proc_results of
        JDict d \<Rightarrow> JDict (filter (\<lambda>kv. fst kv \<notin> set (map KStr reserved_keys)) d)
      | _ \<Rightarrow> JDict [])"

fun process_file_keys ::
  "world \<Rightarrow> jvalue \<Rightarrow> workflow_step \<Rightarrow> string \<Rightarrow> resources \<Rightarrow> string list \<Rightarrow> unit io" where
  "process_file_keys w proc_results workflow_step host rsrc [] = io_return ()"
| "process_file_keys w proc_results workflow_step host rsrc (file_key # keys) =
     io_bind (io_lift (py_in file_key proc_results))
       (\<lambda>present.
          if present
          then io_bind (io_lift (py_getitem proc_results file_key))
                 (\<lambda>file_results.
               io_bind (process_result_file w file_results workflow_step host rsrc)
                 (\<lambda>_. process_file_keys w proc_results workflow_step host rsrc keys))
          else process_file_keys w proc_results workflow_step host rsrc keys)"

definition process_results_json ::
  "world \<Rightarrow> jvalue \<Rightarrow> (jkey \<times> string) list \<Rightarrow> workflow_step \<Rightarrow> string \<Rightarrow> string \<Rightarrow> resources
   \<Rightarrow> bool io" where
  "process_results_json w proc_results experiment_info' workflow_step host request_key rsrc =
     io_bind (io_lift (py_getitem proc_results ''code''))
       (\<lambda>code.
     io_bind (io_lift (return_code_success workflow_step code))
       (\<lambda>success.
          if \<not> success then io_return False
          else
     io_bind (io_lift (py_in ''container'' proc_results))
       (\<lambda>has_container.
     io_bind
       (if has_container
        then io_bind (io_lift (py_getitem proc_results ''container''))
               (\<lambda>container.
             io_bind (process_result_dataset w container experiment_info' workflow_step
                        (process_metadata_of proc_results) host request_key)
               (\<lambda>_. io_return ()))
        else io_return ())
       (\<lambda>_.
     io_bind (process_file_keys w proc_results workflow_step host rsrc [''file'', ''files''])
       (\<lambda>_. io_return True)))))"

section \<open>Staging\<close>

definition create_folder_default_perms :: "world \<Rightarrow> string \<Rightarrow> unit io" where
  "create_folder_default_perms w folder_path =
     io_bind (io_call (MakeDirs folder_path) (\<lambda>log. os_makedirs w log folder_path))
       (\<lambda>_. io_call (Chmod folder_path) (\<lambda>log. os_chmod w log folder_path))"

text \<open>
  The loop of \<^verbatim>\<open>relocate_files\<close> over the source list; the last argument is
  \<^verbatim>\<open>updated_experiment_metadata_path\<close>.
\<close>

fun copy_sources ::
  "world \<Rightarrow> step_env \<Rightarrow> string \<Rightarrow> string list \<Rightarrow> string option \<Rightarrow> string option io" where
  "copy_sources w env dest_dir [] updated = io_return updated"
| "copy_sources w env dest_dir (one_file # rest) updated =
     (if endswith one_file (EXPERIMENT_METADATA_FILENAME env) then
        (let updated_path =
               path_join (BASE_DIR env) [RELATIVE_WORKING_FOLDER env, basename one_file]
         in io_bind (io_call (CopyFile one_file updated_path)
                       (\<lambda>log. shutil_copyfile w log one_file updated_path))
              (\<lambda>_. copy_sources w env dest_dir rest (Some updated_path)))
      else
        io_bind (io_call (IsFile one_file) (\<lambda>log. os_path_isfile w log one_file))
          (\<lambda>is_file.
             if is_file then
               (let dest_filename = path_join dest_dir [basename one_file]
                in io_bind (io_call (CopyFile one_file dest_filename)
                              (\<lambda>log. shutil_copyfile w log one_file dest_filename))
                     (\<lambda>_. copy_sources w env dest_dir rest updated))
             else
               io_bind (io_call (IsDir one_file) (\<lambda>log. os_path_isdir w log one_file))
                 (\<lambda>_. copy_sources w env dest_dir rest updated)))"

text \<open>
  \<^verbatim>\<open>__internal__.relocate_files\<close>. \<open>script_dir\<close> is the folder of the module's own file.
  The argument \<^verbatim>\<open>resources\<close> is the request's resource (a dict), a folder (a str), or
  anything else, for which the function raises.
\<close>

definition relocate_files ::
  "world \<Rightarrow> string \<Rightarrow> step_env \<Rightarrow> staging_source \<Rightarrow> (string \<times> string option) io" where
  "relocate_files w script_dir env source =
     (let dest_dir = path_join (BASE_DIR env) [lstrip (DATA_FOLDER_NAME env) ''/'']
      in io_bind (io_note (RelocateFiles env source))
           (\<lambda>_.
         io_bind (create_folder_default_perms w dest_dir)
           (\<lambda>_.
         io_bind
           (case source of
              FromResources rsrc \<Rightarrow> io_return (local_paths rsrc)
            | FromFolder folder \<Rightarrow>
                io_bind (io_call (ListDir folder) (\<lambda>log. os_listdir w log folder))
                  (\<lambda>names. io_return (map (\<lambda>file_name. path_join folder [file_name]) names))
            | NoSource \<Rightarrow>
                io_raise (RuntimeError
                  ''Parameter 'resource' must be of type dict or str for relocate_files() call''))
           (\<lambda>source_list.
         io_bind (copy_sources w env dest_dir source_list None)
           (\<lambda>updated.
              (let source_filename = path_join script_dir [''cache_results.py''];
                   dest_filename =
                     path_join (BASE_DIR env)
                       [RELATIVE_WORKING_FOLDER env, basename source_filename]
               in io_bind (io_call (CopyFile source_filename dest_filename)
                             (\<lambda>log. shutil_copyfile w log source_filename dest_filename))
                    (\<lambda>_. io_return (dest_dir, updated))))))))"

definition setup_processing_step :: "world \<Rightarrow> step_env \<Rightarrow> string \<Rightarrow> unit io" where
  "setup_processing_step w env out_folder =
     (let env_filename = path_join out_folder [''env.json'']
      in io_call (WriteEnvJson env_filename env) (\<lambda>log. json_dump_env w log env_filename env))"

section \<open>Waiting for the child process\<close>

text \<open>
  Times are in microseconds, the resolution of \<^verbatim>\<open>datetime\<close>. \<^verbatim>\<open>total_seconds()\<close> is the
  number of microseconds divided by \<open>10\<^sup>6\<close> and rounded to a float; that rounding is
  monotone and \<open>86400\<close> is a float, so comparing it with \<^verbatim>\<open>PROC_WAIT_TOTAL_SEC\<close> is
  comparing the microseconds with \<open>86400 * 10\<^sup>6\<close>.
\<close>

definition PROC_WAIT_SLEEP_SEC :: nat where
  "PROC_WAIT_SLEEP_SEC = 5"

definition PROC_WAIT_TOTAL_SEC :: int where
  "PROC_WAIT_TOTAL_SEC = 24 * 60 * 60"

definition elapsed_within_total :: "int \<Rightarrow> int \<Rightarrow> bool" where
  "elapsed_within_total start_time now = (now - start_time \<le> PROC_WAIT_TOTAL_SEC * 1000000)"

text \<open>The inner loop that reads the child's output until \<^verbatim>\<open>readline\<close> gives nothing.\<close>

fun drain_output :: "world \<Rightarrow> nat \<Rightarrow> unit io" where
  "drain_output w 0 log = (OutOfFuel, log)"
| "drain_output w (Suc fuel) log =
     (case io_call ReadLine (stdout_readline w) log of
        (Returns line, log') \<Rightarrow>
          if line \<noteq> [] then drain_output w fuel log' else (Returns (), log')
      | (Raises e, log') \<Rightarrow> (Raises e, log')
      | (OutOfFuel, log') \<Rightarrow> (OutOfFuel, log'))"

text \<open>
  The \<^verbatim>\<open>while\<close> loop of \<^verbatim>\<open>process_message\<close>; \<open>returncode\<close> is \<^verbatim>\<open>proc.returncode\<close>, which
  only \<^verbatim>\<open>proc.poll()\<close> sets; \<^verbatim>\<open>proc.stdout\<close> is the pipe that \<^verbatim>\<open>Popen\<close> was asked for, so the
  test \<^verbatim>\<open>if proc.stdout:\<close> is true. The loop ends in one of three ways: the \<^verbatim>\<open>break\<close> once a
  return code is there, the \<^verbatim>\<open>raise\<close> after the sleep, or the loop condition turning
  false; the last two leave \<open>returncode\<close> as it is. The result is \<open>returncode\<close> at the
  end of the loop.
\<close>

fun wait_loop :: "world \<Rightarrow> int \<Rightarrow> nat \<Rightarrow> int option \<Rightarrow> int option io" where
  "wait_loop w start_time 0 returncode log = (OutOfFuel, log)"
| "wait_loop w start_time (Suc fuel) returncode log =
     io_bind (io_call Now (datetime_now w))
       (\<lambda>now.
          if \<not> elapsed_within_total start_time now then io_return returncode
          else case returncode of
                 Some code \<Rightarrow> io_return returncode
               | None \<Rightarrow>
                   io_bind (io_ignore_errors (drain_output w fuel))
                     (\<lambda>_.
                   io_bind (io_call Poll (proc_poll w))
                     (\<lambda>polled.
                   io_bind (io_call (Sleep PROC_WAIT_SLEEP_SEC)
                              (\<lambda>log. time_sleep w log PROC_WAIT_SLEEP_SEC))
                     (\<lambda>_.
                   io_bind (io_call Now (datetime_now w))
                     (\<lambda>processing_time.
                        if \<not> elapsed_within_total start_time processing_time
                        then io_raise (RuntimeError ''Processing is running too long ('')
                        else wait_loop w start_time fuel polled)))))
       log"

definition wait_for_process :: "world \<Rightarrow> nat \<Rightarrow> int option io" where
  "wait_for_process w fuel =
     io_bind (io_call Now (datetime_now w)) (\<lambda>start_time. wait_loop w start_time fuel None)"

section \<open>The step orchestrator\<close>

text \<open>
  \<^verbatim>\<open>DroneMakeflow.process_message\<close>. The calls into the extractor framework
  (\<^verbatim>\<open>start_message\<close>, the superclass's \<^verbatim>\<open>process_message\<close>, \<^verbatim>\<open>end_message\<close>) are left out.
  The pipeline is a parameter; the module runs \<^const>\<open>WORKFLOW\<close>.
\<close>

record extractor_args =
  named_volume :: "string option"
  working_space :: "string option"

record request =
  rq_host :: string
  rq_secret_key :: string
  rq_resource :: resources
  rq_named_volume :: string
  rq_working_folder :: string
  rq_working_subfolder :: string

text \<open>The variables the loop over the steps carries from one step to the next.\<close>

record loop_state =
  ls_env :: "step_env option"
  ls_step_number :: nat
  ls_previous_step_cache_dir :: "string option"

text \<open>What the loop hands to \<^verbatim>\<open>relocate_files\<close> as its second argument.\<close>

definition staging_source_for :: "nat \<Rightarrow> resources \<Rightarrow> string option \<Rightarrow> staging_source" where
  "staging_source_for step_number rsrc previous_step_cache_dir =
     (if step_number \<le> 1 then FromResources rsrc
      else case previous_step_cache_dir of
             Some folder \<Rightarrow> FromFolder folder
           | None \<Rightarrow> NoSource)"

text \<open>
  One pass of the loop body from the call of \<^verbatim>\<open>relocate_files\<close> on. It returns the
  environment with the experiment file name changed as the body changes it.
\<close>

definition run_step ::
  "world \<Rightarrow> nat \<Rightarrow> string \<Rightarrow> (string \<Rightarrow> string) \<Rightarrow> (jvalue \<Rightarrow> string option)
   \<Rightarrow> (jvalue \<Rightarrow> string) \<Rightarrow> request \<Rightarrow> workflow_step \<Rightarrow> step_env \<Rightarrow> staging_source
   \<Rightarrow> step_env io" where
  "run_step w fuel script_dir py_lower encrypt py_repr rq current_step env source =
     io_bind (relocate_files w script_dir env source)
       (\<lambda>relocated.
          if fst relocated = []
          then io_raise (RuntimeError ''No working folder was determined for processing'')
          else case snd relocated of
                 None \<Rightarrow> io_raise (RuntimeError ''No experiment metadata file is available'')
               | Some new_experiment_path \<Rightarrow>
          if new_experiment_path = []
          then io_raise (RuntimeError ''No experiment metadata file is available'')
          else
     io_bind (io_call (PathExists new_experiment_path)
                (\<lambda>log. os_path_exists w log new_experiment_path))
       (\<lambda>path_exists.
          if path_exists \<and> \<not> startswith new_experiment_path (BASE_DIR env)
          then io_raise (RuntimeError
                 (''Experiment metadata path does not start with the specified BASE_DIR folder ''
                  @ [CHR 0x27]))
          else
            (let env' =
                   (if startswith new_experiment_path (BASE_DIR env)
                    then env \<lparr> EXPERIMENT_METADATA_FILENAME :=
                                 drop (length (BASE_DIR env)) new_experiment_path \<rparr>
                    else env);
                 cmd = [path_join script_dir [''cctools/bin/makeflow''],
                        ''--jx'', makeflow_file current_step,
                        ''--jx-args'', path_join (rq_working_folder rq) [''env.json'']];
                 experiment_path = path_join (BASE_DIR env') [EXPERIMENT_METADATA_FILENAME env']
             in
     io_bind (setup_processing_step w env' (rq_working_folder rq))
       (\<lambda>_.
     io_bind (io_call (Popen cmd) (\<lambda>log. subprocess_Popen w log cmd))
       (\<lambda>_.
     io_bind (wait_for_process w fuel)
       (\<lambda>returncode.
     io_bind (io_call (LoadFile (load_func experiment_path) experiment_path)
                (\<lambda>log. load_file w log (load_func experiment_path) experiment_path))
       (\<lambda>experiment_metadata.
     io_bind (io_lift (read_experiment_metadata py_lower encrypt py_repr experiment_metadata))
       (\<lambda>reconciled.
     io_bind (io_call (PathExists (RESULTS_FILE_PATH env'))
                (\<lambda>log. os_path_exists w log (RESULTS_FILE_PATH env')))
       (\<lambda>results_exist.
          if results_exist
          then
     io_bind (io_call (LoadFile JsonLoad (RESULTS_FILE_PATH env'))
                (\<lambda>log. load_file w log JsonLoad (RESULTS_FILE_PATH env')))
       (\<lambda>proc_results.
     io_bind (process_results_json w proc_results (experiment_info reconciled) current_step
                (rq_host rq) (rq_secret_key rq) (rq_resource rq))
       (\<lambda>_. io_return env'))
          else io_raise (RuntimeError (''Result file from current step '' @ [CHR 0x27])))))))))))"

text \<open>
  The loop over the steps: each pass first updates \<^verbatim>\<open>previous_step_cache_dir\<close> from the
  environment of the pass before, builds the new environment, and runs the rest of the
  body with the staging source chosen by the step number.
\<close>

fun run_steps ::
  "world \<Rightarrow> nat \<Rightarrow> string \<Rightarrow> (string \<Rightarrow> string) \<Rightarrow> (jvalue \<Rightarrow> string option)
   \<Rightarrow> (jvalue \<Rightarrow> string) \<Rightarrow> request \<Rightarrow> workflow_step list \<Rightarrow> loop_state \<Rightarrow> unit io" where
  "run_steps w fuel script_dir py_lower encrypt py_repr rq [] st = io_return ()"
| "run_steps w fuel script_dir py_lower encrypt py_repr rq (current_step # rest) st =
     (let step_number = ls_step_number st + 1;
          previous_step_cache_dir =
            (case ls_env st of
               Some env \<Rightarrow> Some (CACHE_DIR env)
             | None \<Rightarrow> ls_previous_step_cache_dir st)
      in io_bind (io_lift (create_env_json (rq_working_folder rq) (rq_working_subfolder rq)
                             (rq_named_volume rq) current_step (rq_resource rq)))
           (\<lambda>env.
         io_bind (run_step w fuel script_dir py_lower encrypt py_repr rq current_step env
                    (staging_source_for step_number (rq_resource rq) previous_step_cache_dir))
           (\<lambda>env'.
              run_steps w fuel script_dir py_lower encrypt py_repr rq rest
                \<lparr> ls_env = Some env', ls_step_number = step_number,
                  ls_previous_step_cache_dir = previous_step_cache_dir \<rparr>)))"

definition no_named_volume :: string where
  "no_named_volume =
     ''No named volume was specified. Try setting the NAMED_VOLUME environment variable'' @
     '' (if using Docker set to a named volume to use)''"

definition no_working_space :: string where
  "no_working_space =
     ''No working space folder was specified. Try setting the WORKING_SPACE environment variable '' @
     ''(if using Docker set to a folder to mount)''"

definition process_message ::
  "world \<Rightarrow> nat \<Rightarrow> string \<Rightarrow> (string \<Rightarrow> string) \<Rightarrow> (jvalue \<Rightarrow> string option)
   \<Rightarrow> (jvalue \<Rightarrow> string) \<Rightarrow> extractor_args \<Rightarrow> workflow_step list \<Rightarrow> string \<Rightarrow> string
   \<Rightarrow> resources \<Rightarrow> unit io" where
  "process_message w fuel script_dir py_lower encrypt py_repr args steps host secret_key rsrc =
     (case named_volume args of
        None \<Rightarrow> io_raise (RuntimeError no_named_volume)
      | Some volume \<Rightarrow>
          if volume = [] then io_raise (RuntimeError no_named_volume)
          else case working_space args of
                 None \<Rightarrow> io_raise (RuntimeError no_working_space)
               | Some space \<Rightarrow>
          if space = [] then io_raise (RuntimeError no_working_space)
          else
     io_bind (io_call (MkDTemp space) (\<lambda>log. tempfile_mkdtemp w log space))
       (\<lambda>working_folder.
     io_bind (create_folder_default_perms w working_folder)
       (\<lambda>_.
          run_steps w fuel script_dir py_lower encrypt py_repr
            \<lparr> rq_host = host, rq_secret_key = secret_key, rq_resource = rsrc,
              rq_named_volume = volume, rq_working_folder = working_folder,
              rq_working_subfolder = drop (length space) working_folder \<rparr>
            steps
            \<lparr> ls_env = None, ls_step_number = 0, ls_previous_step_cache_dir = None \<rparr>)))"

text \<open>A world to run the model in.\<close>

definition quiet_world :: world where
  "quiet_world =
     \<lparr> os_makedirs = (\<lambda>log path. Inr ()),
       os_chmod = (\<lambda>log path. Inr ()),
       os_listdir = (\<lambda>log path. Inr [''experiment.yaml'', ''orthomosaic.tif'']),
       os_path_isfile = (\<lambda>log path. Inr True),
       os_path_isdir = (\<lambda>log path. Inr False),
       os_path_exists = (\<lambda>log path. Inr True),
       shutil_copyfile = (\<lambda>log src dst. Inr ()),
       tempfile_mkdtemp = (\<lambda>log dir. Inr (path_join dir [''tmpjhvq63gh''])),
       json_dump_env = (\<lambda>log path env. Inr ()),
       subprocess_Popen = (\<lambda>log cmd. Inr ()),
       stdout_readline = (\<lambda>log. Inr []),
       proc_poll = (\<lambda>log. Inr (Some 0)),
       time_sleep = (\<lambda>log secs. Inr ()),
       datetime_now = (\<lambda>log. Inr (5000000 * int (length (filter (\<lambda>ev. ev = Sleep 5) log)))),
       load_file = (\<lambda>log loader path.
          if loader = YamlSafeLoad
          then Inr (JDict [(KStr ''date'', JStr ''2020-01-01''),
                           (KStr ''experiment'', JStr ''trial1''),
                           (KStr ''clowder'', JDict [(KStr ''username'', JStr ''u''),
                                                     (KStr ''password'', JStr ''p'')])])
          else Inr (JDict [(KStr ''code'', JInt 0)])),
       get_datasetid_by_name = (\<lambda>log name. Inr JNull),
       post_createempty = (\<lambda>log host name. Inr (JDict [(KStr ''id'', JStr ''ds1'')])),
       upload_to_dataset = (\<lambda>log dataset_id path. Inr (JStr ''f1'')),
       requests_delete = (\<lambda>log file_id. Inr ()),
       files_upload_metadata = (\<lambda>log file_id metadata. Inr ()),
       datasets_remove_metadata = (\<lambda>log dataset_id. Inr ()),
       datasets_upload_metadata = (\<lambda>log dataset_id metadata. Inr ()) \<rparr>"

definition request_resource :: resources where
  "request_resource =
     \<lparr> local_paths = [''/in/image1.tif'', ''/in/image2.tif'', ''/in/experiment.yaml''],
       res_type = Some ''dataset'', res_id = Some ''5e1f'', res_parent = None \<rparr>"

section \<open>Paths and inputs used in the statements\<close>

text \<open>A path lies inside a folder when it extends the folder's name and a slash.\<close>

definition path_inside :: "string \<Rightarrow> string \<Rightarrow> bool" where
  "path_inside p folder =
     (let d = (if endswith folder ''/'' then folder else folder @ ''/'')
      in startswith p d \<and> length d < length p)"

definition paths_without_yaml :: resources where
  "paths_without_yaml =
     \<lparr> local_paths = [''/in/image1.tif'', ''/in/experiment.json'', ''/in/experiment.yml''],
       res_type = None, res_id = None, res_parent = None \<rparr>"

definition first_step_env :: step_env where
  "first_step_env =
     \<lparr> IMAGE_MOUNT_SOURCE = ''testing'', DOCKER_VERSION = ''2.0'', BASE_DIR = ''/mnt/'',
       RELATIVE_WORKING_FOLDER = ''tmpjhvq63gh/odm_workflow/'',
       CACHE_DIR = ''/mnt/tmpjhvq63gh/odm_workflow/cache/'',
       DATA_FOLDER_NAME = ''tmpjhvq63gh/odm_workflow/images'',
       EXPERIMENT_METADATA_FILENAME = ''experiment.yaml'',
       RESULTS_FILE_PATH = ''/mnt/tmpjhvq63gh/results.json'' \<rparr>"





text \<open>
  Stand-ins for the external encryption and for Python's \<^verbatim>\<open>repr\<close>. On the ASCII keys of
  the examples below \<^const>\<open>lower\<close> is \<^verbatim>\<open>str.lower\<close>.
\<close>

definition failing_encrypt :: "jvalue \<Rightarrow> string option" where
  "failing_encrypt plain_text = None"


definition question_repr :: "jvalue \<Rightarrow> string" where
  "question_repr v = ''?''"

text \<open>The experiment descriptor of the dataset-name scenario, and one that also has a name.\<close>

definition scenario_descriptor :: jdict where
  "scenario_descriptor =
     [(KStr ''date'', JStr ''2020-01-01''), (KStr ''experiment'', JStr ''trial1'')]"

definition named_descriptor :: jdict where
  "named_descriptor =
     [(KStr ''date'', JStr ''2020-01-01''), (KStr ''experiment'', JStr ''trial1''),
      (KStr ''name'', JStr ''OpenDroneMap workflow'')]"

definition untemplated_step :: workflow_step where
  "untemplated_step = (WORKFLOW ! 0) \<lparr> dataset_name_template := None \<rparr>"









text \<open>Results descriptors, one with a rejected return code and one with an accepted one.\<close>

definition rejected_results :: jvalue where
  "rejected_results =
     JDict [(KStr ''code'', JInt 1),
            (KStr ''container'',
               JDict [(KStr ''name'', JStr ''odm''),
                      (KStr ''files'', JList [JDict [(KStr ''path'', JStr ''/mnt/o.tif'')]])]),
            (KStr ''message'', JStr ''failed'')]"

definition accepted_results :: jvalue where
  "accepted_results =
     JDict [(KStr ''code'', JInt 0),
            (KStr ''container'',
               JDict [(KStr ''name'', JStr ''odm''),
                      (KStr ''files'', JList [JDict [(KStr ''path'', JStr ''/mnt/o.tif'')]])]),
            (KStr ''runtime'', JInt 12)]"

text \<open>
  A world whose child process never exits and never writes, and whose clock reads, in
  microseconds, 0 at the launch, 0 at the first test of the loop condition, 86400000000
  (the full 24 hours) after the sleep, and one microsecond more at the next test of the
  loop condition.
\<close>

definition clock_readings :: "int list" where
  "clock_readings = [0, 0, 86400000000, 86400000001]"

definition boundary_world :: world where
  "boundary_world =
     quiet_world
       \<lparr> proc_poll := (\<lambda>log. Inr None),
         datetime_now := (\<lambda>log.
            let n = length (filter (\<lambda>ev. ev = Now) log)
            in if n < length clock_readings then Inr (clock_readings ! n) else Inl OSError) \<rparr>"

text \<open>
  The same child in a world whose clock is already one microsecond past the 24 hours at
  the test after the sleep.
\<close>

definition late_world :: world where
  "late_world =
     quiet_world
       \<lparr> proc_poll := (\<lambda>log. Inr None),
         datetime_now := (\<lambda>log.
            let n = length (filter (\<lambda>ev. ev = Now) log)
            in if n < 2 then Inr 0 else Inr 86400000001) \<rparr>"

text \<open>
  For the loop over the steps. The calls of \<^verbatim>\<open>relocate_files\<close> entered in a piece of the
  log, in order, each with the environment and the staging source it was given; a list
  of calls in which the first stages from a given source and each later one from the
  \<^verbatim>\<open>CACHE_DIR\<close> of the environment of the call before; a computation whose every returned
  value satisfies a property; a computation that enters no call of \<^verbatim>\<open>relocate_files\<close>; and
  one that enters a given call once, or not at all when it does not return.
\<close>

definition relocation :: "event \<Rightarrow> (step_env \<times> staging_source) option" where
  "relocation ev = (case ev of RelocateFiles env source \<Rightarrow> Some (env, source) | _ \<Rightarrow> None)"

definition relocations :: "event list \<Rightarrow> (step_env \<times> staging_source) list" where
  "relocations evs = List.map_filter relocation evs"

fun chained :: "staging_source \<Rightarrow> (step_env \<times> staging_source) list \<Rightarrow> bool" where
  "chained source [] = True"
| "chained source (call # rest) =
     (snd call = source \<and> chained (FromFolder (CACHE_DIR (fst call))) rest)"

definition yields :: "('a \<Rightarrow> bool) \<Rightarrow> 'a io \<Rightarrow> bool" where
  "yields P m = (\<forall>log x log'. m log = (Returns x, log') \<longrightarrow> P x)"

definition quiet :: "'a io \<Rightarrow> bool" where
  "quiet m = (\<forall>log r log'. m log = (r, log') \<longrightarrow> (\<exists>evs. log' = log @ evs \<and> relocations evs = []))"

definition once :: "step_env \<times> staging_source \<Rightarrow> 'a io \<Rightarrow> bool" where
  "once call m =
     (\<forall>log r log'. m log = (r, log') \<longrightarrow>
        (\<exists>evs. log' = log @ evs \<and>
           (relocations evs = [call] \<or> (relocations evs = [] \<and> (\<forall>x. r \<noteq> Returns x)))))"

text \<open>A complete run of the module's pipeline in the quiet world.\<close>

definition request_args :: extractor_args where
  "request_args = \<lparr> named_volume = Some ''testing'', working_space = Some ''/mnt'' \<rparr>"

definition quiet_run :: "unit outcome \<times> event list" where
  "quiet_run =
     process_message quiet_world 3 ''/home/extractor'' lower failing_encrypt question_repr
       request_args WORKFLOW ''http://clowder/'' ''key'' request_resource []"
section \<open>The environment builder: experiment file and results file\<close>

lemmas string_defs = startswith_def endswith_def lower_def lower_char_def lstrip_def rstrip_def
  slashes_def path_join_def join_step_def basename_def splitext_def

lemma experiment_file_nonempty: "is_experiment_file f \<Longrightarrow> f \<noteq> []"
  by (auto simp: is_experiment_file_def endswith_def lower_def)

lemma create_env_json_none:
  "find is_experiment_file (local_paths rsrc) = None \<Longrightarrow>
   create_env_json out_folder sub vol step rsrc =
     Inl (RuntimeError ''Unable to find an experiment JSON file'')"
  by (simp add: create_env_json_def Let_def)

lemma create_env_json_some:
  assumes "find is_experiment_file (local_paths rsrc) = Some f"
  shows "\<exists>env. create_env_json out_folder sub vol step rsrc = Inr env \<and>
     EXPERIMENT_METADATA_FILENAME env = basename f \<and>
     RESULTS_FILE_PATH env = path_join out_folder [''results.json''] \<and>
     BASE_DIR env = ''/mnt/''"
proof -
  from assms have "is_experiment_file f" by (auto simp: find_Some_iff)
  then have "f \<noteq> []" by (rule experiment_file_nonempty)
  with assms show ?thesis by (simp add: create_env_json_def Let_def)
qed

lemma create_env_json_Inr:
  assumes "create_env_json out_folder sub vol step rsrc = Inr env"
  shows "RESULTS_FILE_PATH env = path_join out_folder [''results.json''] \<and> BASE_DIR env = ''/mnt/''"
proof (cases "find is_experiment_file (local_paths rsrc)")
  case None
  with assms show ?thesis by (simp add: create_env_json_none)
next
  case (Some f)
  from create_env_json_some [OF this, of out_folder sub vol step] assms show ?thesis by auto
qed

lemma find_first:
  "xs = pre @ f # post \<Longrightarrow> P f \<Longrightarrow> \<forall>g \<in> set pre. \<not> P g \<Longrightarrow> find P xs = Some f"
  by (induction pre arbitrary: xs) auto

text \<open>
  Claim C7. Building the step environment fails with an error when no file of the
  request's resource set matches the experiment-descriptor naming pattern; when some
  file matches, the first one in the order of the list is selected, and its base name is
  the environment's experiment-metadata filename.
\<close>

theorem create_env_json_experiment_file:
  "((\<forall>f \<in> set (local_paths rsrc). \<not> is_experiment_file f) \<longrightarrow>
      (\<exists>msg. create_env_json out_folder sub vol step rsrc = Inl (RuntimeError msg))) \<and>
   (\<forall>pre f post.
      local_paths rsrc = pre @ f # post \<and> is_experiment_file f \<and>
      (\<forall>g \<in> set pre. \<not> is_experiment_file g) \<longrightarrow>
      (\<exists>env. create_env_json out_folder sub vol step rsrc = Inr env \<and>
             EXPERIMENT_METADATA_FILENAME env = basename f))"
proof (intro conjI impI allI)
  assume "\<forall>f \<in> set (local_paths rsrc). \<not> is_experiment_file f"
  then have "find is_experiment_file (local_paths rsrc) = None"
    by (simp add: find_None_iff)
  then show "\<exists>msg. create_env_json out_folder sub vol step rsrc = Inl (RuntimeError msg)"
    by (simp add: create_env_json_none)
next
  fix pre f post
  assume "local_paths rsrc = pre @ f # post \<and> is_experiment_file f \<and>
      (\<forall>g \<in> set pre. \<not> is_experiment_file g)"
  then have "find is_experiment_file (local_paths rsrc) = Some f"
    by (auto intro: find_first)
  from create_env_json_some [OF this]
  show "\<exists>env. create_env_json out_folder sub vol step rsrc = Inr env \<and>
             EXPERIMENT_METADATA_FILENAME env = basename f"
    by blast
qed

lemma no_yaml_eval: "\<forall>f \<in> set (local_paths paths_without_yaml). \<not> is_experiment_file f"
  by (simp add: paths_without_yaml_def is_experiment_file_def string_defs)

lemma request_resource_eval:
  "local_paths request_resource = [''/in/image1.tif'', ''/in/image2.tif''] @ ''/in/experiment.yaml'' # [] \<and>
   is_experiment_file ''/in/experiment.yaml'' \<and>
   (\<forall>g \<in> set [''/in/image1.tif'', ''/in/image2.tif'']. \<not> is_experiment_file g)"
  by (simp add: request_resource_def is_experiment_file_def string_defs)

theorem create_env_json_experiment_file_witness:
  "(\<exists>msg. create_env_json ''/mnt/tmpjhvq63gh'' ''/tmpjhvq63gh'' ''testing'' (WORKFLOW ! 0)
            paths_without_yaml = Inl (RuntimeError msg)) \<and>
   (\<exists>env. create_env_json ''/mnt/tmpjhvq63gh'' ''/tmpjhvq63gh'' ''testing'' (WORKFLOW ! 0)
            request_resource = Inr env \<and>
          EXPERIMENT_METADATA_FILENAME env = ''experiment.yaml'')"
proof -
  have b: "basename ''/in/experiment.yaml'' = ''experiment.yaml''"
    by (simp add: basename_def)
  from create_env_json_experiment_file
    [of paths_without_yaml "''/mnt/tmpjhvq63gh''" "''/tmpjhvq63gh''" "''testing''" "WORKFLOW ! 0"]
    no_yaml_eval
  have 1: "\<exists>msg. create_env_json ''/mnt/tmpjhvq63gh'' ''/tmpjhvq63gh'' ''testing'' (WORKFLOW ! 0)
            paths_without_yaml = Inl (RuntimeError msg)"
    by blast
  from create_env_json_experiment_file
    [of request_resource "''/mnt/tmpjhvq63gh''" "''/tmpjhvq63gh''" "''testing''" "WORKFLOW ! 0"]
    request_resource_eval
  have "\<exists>env. create_env_json ''/mnt/tmpjhvq63gh'' ''/tmpjhvq63gh'' ''testing'' (WORKFLOW ! 0)
            request_resource = Inr env \<and>
          EXPERIMENT_METADATA_FILENAME env = basename ''/in/experiment.yaml''"
    by blast
  with 1 b show ?thesis by simp
qed

lemma endswith_last: "endswith s p \<Longrightarrow> p \<noteq> [] \<Longrightarrow> s \<noteq> [] \<and> last s = last p"
  by (auto simp: endswith_def) (metis last_drop drop_eq_Nil not_le)

lemma endswith_butlast: "endswith s p \<Longrightarrow> p \<noteq> [] \<Longrightarrow> endswith (butlast s) (butlast p)"
  apply (auto simp: endswith_def butlast_drop)
  apply (metis butlast_drop diff_diff_left plus_1_eq_Suc diff_Suc_eq_diff_pred diff_commute)
  done

lemma json_yml_not_yaml:
  "endswith s ''.json'' \<or> endswith s ''.yml'' \<Longrightarrow> \<not> endswith s ''.yaml''"
proof
  assume a: "endswith s ''.json'' \<or> endswith s ''.yml''" and y: "endswith s ''.yaml''"
  from y have l: "last s = CHR ''l''" using endswith_last [of s "''.yaml''"] by simp
  from a show False
  proof
    assume "endswith s ''.json''"
    then have "last s = CHR ''n''" using endswith_last [of s "''.json''"] by simp
    with l show False by simp
  next
    assume m: "endswith s ''.yml''"
    from endswith_butlast [OF m] have "endswith (butlast s) ''.ym''" by simp
    from endswith_butlast [OF this] have "endswith (butlast (butlast s)) ''.y''" by simp
    then have 1: "last (butlast (butlast s)) = CHR ''y''"
      using endswith_last [of "butlast (butlast s)" "''.y''"] by simp
    from endswith_butlast [OF y] have "endswith (butlast s) ''.yam''" by simp
    from endswith_butlast [OF this] have "endswith (butlast (butlast s)) ''.ya''" by simp
    then have "last (butlast (butlast s)) = CHR ''a''"
      using endswith_last [of "butlast (butlast s)" "''.ya''"] by simp
    with 1 show False by simp
  qed
qed

text \<open>
  Claim C10. The environment builder recognizes as the experiment descriptor only a file
  whose lower-cased name ends in \<^verbatim>\<open>.yaml\<close>: a name that ends in \<^verbatim>\<open>.json\<close> or \<^verbatim>\<open>.yml\<close> is
  not recognized, and with no \<^verbatim>\<open>.yaml\<close> file in the resource set the build fails, although
  the later loading step picks the YAML loader for \<^verbatim>\<open>.yml\<close> and \<^verbatim>\<open>.yaml\<close> and the JSON
  loader for \<^verbatim>\<open>.json\<close>.
\<close>

theorem experiment_file_only_yaml:
  "(is_experiment_file f \<longleftrightarrow> endswith (lower f) ''.yaml'') \<and>
   (endswith (lower f) ''.json'' \<or> endswith (lower f) ''.yml'' \<longrightarrow> \<not> is_experiment_file f) \<and>
   ((\<forall>g \<in> set (local_paths rsrc). endswith (lower g) ''.json'' \<or> endswith (lower g) ''.yml'' \<or>
        \<not> endswith (lower g) ''.yaml'') \<longrightarrow>
      create_env_json out_folder sub vol step rsrc =
        Inl (RuntimeError ''Unable to find an experiment JSON file'')) \<and>
   (snd (splitext p) = ''.yml'' \<or> snd (splitext p) = ''.yaml'' \<longrightarrow> load_func p = YamlSafeLoad) \<and>
   (snd (splitext p) = ''.json'' \<longrightarrow> load_func p = JsonLoad)"
proof (intro conjI impI)
  show "is_experiment_file f \<longleftrightarrow> endswith (lower f) ''.yaml''"
    by (simp add: is_experiment_file_def)
next
  assume "endswith (lower f) ''.json'' \<or> endswith (lower f) ''.yml''"
  then show "\<not> is_experiment_file f"
    unfolding is_experiment_file_def by (rule json_yml_not_yaml)
next
  assume a: "\<forall>g \<in> set (local_paths rsrc). endswith (lower g) ''.json'' \<or> endswith (lower g) ''.yml'' \<or>
        \<not> endswith (lower g) ''.yaml''"
  have "\<forall>g \<in> set (local_paths rsrc). \<not> is_experiment_file g"
  proof
    fix g assume "g \<in> set (local_paths rsrc)"
    with a have "endswith (lower g) ''.json'' \<or> endswith (lower g) ''.yml'' \<or>
        \<not> endswith (lower g) ''.yaml''" by blast
    then show "\<not> is_experiment_file g"
      unfolding is_experiment_file_def using json_yml_not_yaml [of "lower g"] by blast
  qed
  then have "find is_experiment_file (local_paths rsrc) = None"
    by (simp add: find_None_iff)
  then show "create_env_json out_folder sub vol step rsrc =
        Inl (RuntimeError ''Unable to find an experiment JSON file'')"
    by (rule create_env_json_none)
next
  assume "snd (splitext p) = ''.yml'' \<or> snd (splitext p) = ''.yaml''"
  then show "load_func p = YamlSafeLoad" by (auto simp: load_func_def)
next
  assume "snd (splitext p) = ''.json''"
  then show "load_func p = JsonLoad" by (simp add: load_func_def)
qed

theorem experiment_file_only_yaml_witness:
  "create_env_json ''/mnt/tmpjhvq63gh'' ''/tmpjhvq63gh'' ''testing'' (WORKFLOW ! 0)
     paths_without_yaml = Inl (RuntimeError ''Unable to find an experiment JSON file'') \<and>
   \<not> is_experiment_file ''/in/experiment.json'' \<and>
   \<not> is_experiment_file ''/in/experiment.yml'' \<and>
   load_func ''/mnt/tmpjhvq63gh/odm_workflow/experiment.yml'' = YamlSafeLoad \<and>
   load_func ''/mnt/tmpjhvq63gh/odm_workflow/experiment.json'' = JsonLoad"
proof -
  have e1: "endswith (lower ''/in/experiment.json'') ''.json''"
    and e2: "endswith (lower ''/in/experiment.yml'') ''.yml''"
    and e3: "snd (splitext ''/mnt/tmpjhvq63gh/odm_workflow/experiment.yml'') = ''.yml''"
    and e4: "snd (splitext ''/mnt/tmpjhvq63gh/odm_workflow/experiment.json'') = ''.json''"
    by (simp_all add: string_defs)
  have e5: "\<forall>g \<in> set (local_paths paths_without_yaml). \<not> endswith (lower g) ''.yaml''"
    by (simp add: paths_without_yaml_def string_defs)
  from experiment_file_only_yaml
    [of "''/in/experiment.json''" paths_without_yaml "''/mnt/tmpjhvq63gh''" "''/tmpjhvq63gh''"
        "''testing''" "WORKFLOW ! 0" "''/mnt/tmpjhvq63gh/odm_workflow/experiment.yml''"]
    experiment_file_only_yaml
    [of "''/in/experiment.yml''" paths_without_yaml "''/mnt/tmpjhvq63gh''" "''/tmpjhvq63gh''"
        "''testing''" "WORKFLOW ! 0" "''/mnt/tmpjhvq63gh/odm_workflow/experiment.json''"]
    e1 e2 e3 e4 e5
  show ?thesis by blast
qed

lemma startswith_append: "startswith (a @ b) a"
  by (simp add: startswith_def)

lemma startswith_length: "startswith s p \<Longrightarrow> length p \<le> length s"
  by (metis startswith_def length_take min.cobounded1)

lemma startswith_trans:
  assumes "startswith a p"
  shows "startswith (a @ b) p"
proof -
  have "length p \<le> length a" by (rule startswith_length [OF assms])
  with assms show ?thesis by (simp add: startswith_def)
qed

lemma results_path_cases:
  "path_join out_folder [''results.json''] =
     (if out_folder = [] \<or> endswith out_folder ''/'' then out_folder @ ''results.json''
      else out_folder @ ''/results.json'')"
  by (simp add: path_join_def join_step_def startswith_def)

lemma results_path_inside:
  "out_folder \<noteq> [] \<Longrightarrow> path_inside (path_join out_folder [''results.json'']) out_folder"
  by (simp add: results_path_cases path_inside_def Let_def startswith_def)

lemma results_path_inside_mnt:
  assumes "startswith out_folder ''/mnt/''"
  shows "path_inside (path_join out_folder [''results.json'']) ''/mnt/''"
proof -
  from startswith_length [OF assms] have "5 \<le> length out_folder" by simp
  moreover from assms have "startswith (path_join out_folder [''results.json'']) ''/mnt/''"
    by (simp add: results_path_cases startswith_trans)
  ultimately show ?thesis
    by (simp add: path_inside_def Let_def endswith_def results_path_cases)
qed

text \<open>
  Claim C8, as amended. For every step environment the builder produces, the results-file
  path is \<^verbatim>\<open>os.path.join\<close> of the request's working folder and \<^verbatim>\<open>results.json\<close>, so it
  lies inside that working folder; the base mount path is \<^verbatim>\<open>/mnt/\<close>, and the results file
  lies inside it whenever the working folder does.
\<close>

theorem results_file_path_location:
  "create_env_json out_folder sub vol step rsrc = Inr env \<longrightarrow>
     RESULTS_FILE_PATH env = path_join out_folder [''results.json''] \<and>
     BASE_DIR env = ''/mnt/'' \<and>
     (out_folder \<noteq> [] \<longrightarrow> path_inside (RESULTS_FILE_PATH env) out_folder) \<and>
     (startswith out_folder ''/mnt/'' \<longrightarrow> path_inside (RESULTS_FILE_PATH env) (BASE_DIR env))"
proof
  assume "create_env_json out_folder sub vol step rsrc = Inr env"
  from create_env_json_Inr [OF this]
  show "RESULTS_FILE_PATH env = path_join out_folder [''results.json''] \<and>
     BASE_DIR env = ''/mnt/'' \<and>
     (out_folder \<noteq> [] \<longrightarrow> path_inside (RESULTS_FILE_PATH env) out_folder) \<and>
     (startswith out_folder ''/mnt/'' \<longrightarrow> path_inside (RESULTS_FILE_PATH env) (BASE_DIR env))"
    using results_path_inside [of out_folder] results_path_inside_mnt [of out_folder] by simp
qed

lemma first_step_env_eval:
  "create_env_json ''/mnt/tmpjhvq63gh'' ''/tmpjhvq63gh'' ''testing'' (WORKFLOW ! 0)
     request_resource = Inr first_step_env"
  by (simp add: create_env_json_def WORKFLOW_def request_resource_def first_step_env_def
      is_experiment_file_def string_defs Let_def)

text \<open>
  The claim C8 as stated fails: with the working space \<^verbatim>\<open>/mnt\<close> of the deployment the
  module documents, the results file of the first step lies inside the base mount path.
\<close>

theorem results_file_inside_base_dir:
  "create_env_json ''/mnt/tmpjhvq63gh'' ''/tmpjhvq63gh'' ''testing'' (WORKFLOW ! 0)
     request_resource = Inr first_step_env \<and>
   RESULTS_FILE_PATH first_step_env = ''/mnt/tmpjhvq63gh/results.json'' \<and>
   BASE_DIR first_step_env = ''/mnt/'' \<and>
   path_inside (RESULTS_FILE_PATH first_step_env) (BASE_DIR first_step_env)"
  by (simp add: first_step_env_eval) (simp add: first_step_env_def path_inside_def string_defs)

theorem results_file_path_location_witness:
  "path_inside (RESULTS_FILE_PATH first_step_env) ''/mnt/tmpjhvq63gh'' \<and>
   path_inside (RESULTS_FILE_PATH first_step_env) (BASE_DIR first_step_env)"
proof -
  have "''/mnt/tmpjhvq63gh'' \<noteq> []" and "startswith ''/mnt/tmpjhvq63gh'' ''/mnt/''"
    by (simp_all add: startswith_def)
  with results_file_path_location
    [of "''/mnt/tmpjhvq63gh''" "''/tmpjhvq63gh''" "''testing''" "WORKFLOW ! 0" request_resource
        first_step_env]
    first_step_env_eval
  show ?thesis by blast
qed


section \<open>Securing a password\<close>



section \<open>Dataset names\<close>

lemma scenario_info:
  "load_experiment_info py_repr scenario_descriptor =
     [(KStr ''date'', ''2020-01-01''), (KStr ''experiment'', ''trial1'')]"
  by (simp add: load_experiment_info_def scenario_descriptor_def dict_set_def py_str_def)

lemma named_info:
  "load_experiment_info py_repr named_descriptor =
     [(KStr ''date'', ''2020-01-01''), (KStr ''experiment'', ''trial1''),
      (KStr ''name'', ''OpenDroneMap workflow'')]"
  by (simp add: load_experiment_info_def named_descriptor_def dict_set_def py_str_def)

lemma first_step_template:
  "dataset_name_template (WORKFLOW ! 0) = Some ''{date}_{experiment}_{name}''"
  by (simp add: WORKFLOW_def)

lemma format_scenario:
  "py_format ''{date}_{experiment}_{name}''
     [(KStr ''date'', ''2020-01-01''), (KStr ''experiment'', ''trial1'')] = Inl (KeyError ''name'')"
  by (simp add: py_format_def format_field_def and_then_def)

lemma format_named:
  "py_format ''{date}_{experiment}_{name}''
     [(KStr ''date'', ''2020-01-01''), (KStr ''experiment'', ''trial1''),
      (KStr ''name'', ''OpenDroneMap workflow'')] = Inr ''2020-01-01_trial1_OpenDroneMap workflow''"
  by (simp add: py_format_def format_field_def and_then_def)

text \<open>
  Claim C3, as amended. Publishing a container result as a dataset formats the dataset
  name by substituting the fields of the experiment descriptor into the step's
  \<^verbatim>\<open>dataset_name_template\<close>, or into \<^verbatim>\<open>{name}_{date}_{experiment}\<close> when the step has none.
  Only the descriptor's fields are substituted: for the template
  \<^verbatim>\<open>{date}_{experiment}_{name}\<close> of the first step and the descriptor with \<^verbatim>\<open>date\<close> and
  \<^verbatim>\<open>experiment\<close> alone, formatting raises \<^verbatim>\<open>KeyError('name')\<close> before any call to Clowder;
  when the descriptor also has \<^verbatim>\<open>name: OpenDroneMap workflow\<close>, the dataset name is
  \<^verbatim>\<open>2020-01-01_trial1_OpenDroneMap workflow\<close>.
\<close>

theorem dataset_name_from_template:
  "(\<forall>template. dataset_name_template step = Some template \<longrightarrow>
      dataset_name step info = py_format template info) \<and>
   (dataset_name_template step = None \<longrightarrow>
      dataset_name step info = py_format ''{name}_{date}_{experiment}'' info) \<and>
   dataset_name (WORKFLOW ! 0) (load_experiment_info py_repr scenario_descriptor) =
     Inl (KeyError ''name'') \<and>
   process_result_dataset w container (load_experiment_info py_repr scenario_descriptor)
     (WORKFLOW ! 0) process_metadata host request_key log = (Raises (KeyError ''name''), log) \<and>
   dataset_name (WORKFLOW ! 0) (load_experiment_info py_repr named_descriptor) =
     Inr ''2020-01-01_trial1_OpenDroneMap workflow''"
proof -
  have a: "dataset_name (WORKFLOW ! 0) (load_experiment_info py_repr scenario_descriptor) =
     Inl (KeyError ''name'')"
    by (simp add: dataset_name_def first_step_template scenario_info format_scenario)
  have b: "dataset_name (WORKFLOW ! 0) (load_experiment_info py_repr named_descriptor) =
     Inr ''2020-01-01_trial1_OpenDroneMap workflow''"
    by (simp add: dataset_name_def first_step_template named_info format_named)
  have c: "process_result_dataset w container (load_experiment_info py_repr scenario_descriptor)
     (WORKFLOW ! 0) process_metadata host request_key log = (Raises (KeyError ''name''), log)"
    by (simp add: process_result_dataset_def a io_bind_def io_lift_def io_raise_def)
  show ?thesis
    using a b c by (simp add: dataset_name_def)
qed

text \<open>
  The claim C3 as stated fails in its scenario: the name of the step is not among the
  substituted fields, so no dataset name results.
\<close>

theorem dataset_name_scenario_fails:
  "dataset_name (WORKFLOW ! 0) (load_experiment_info question_repr scenario_descriptor) =
     Inl (KeyError ''name'') \<and>
   dataset_name (WORKFLOW ! 0) (load_experiment_info question_repr scenario_descriptor) \<noteq>
     Inr ''2020-01-01_trial1_OpenDroneMap workflow''"
  by (simp add: dataset_name_def first_step_template scenario_info format_scenario)

theorem dataset_name_from_template_witness:
  "dataset_name (WORKFLOW ! 0) (load_experiment_info question_repr named_descriptor) =
     py_format ''{date}_{experiment}_{name}''
       (load_experiment_info question_repr named_descriptor) \<and>
   dataset_name untemplated_step
       (load_experiment_info question_repr named_descriptor) =
     py_format ''{name}_{date}_{experiment}''
       (load_experiment_info question_repr named_descriptor)"
proof -
  have "dataset_name_template untemplated_step = None"
    by (simp add: untemplated_step_def)
  with dataset_name_from_template
    [of "WORKFLOW ! 0" "load_experiment_info question_repr named_descriptor"]
    dataset_name_from_template
    [of untemplated_step
        "load_experiment_info question_repr named_descriptor"]
    first_step_template
  show ?thesis by blast
qed


section \<open>Result ingestion\<close>

text \<open>
  Claim C5. When the step's success test rejects the code of the results descriptor,
  \<^verbatim>\<open>process_results_json\<close> returns \<^verbatim>\<open>False\<close> and calls nothing: the log of outside calls
  is unchanged, so no dataset is looked up or created, no file uploaded and no
  metadata attached.
\<close>

theorem process_results_json_rejected:
  "py_getitem proc_results ''code'' = Inr code \<longrightarrow>
   return_code_success step code = Inr False \<longrightarrow>
   process_results_json w proc_results info step host request_key rsrc log = (Returns False, log)"
  by (simp add: process_results_json_def io_bind_def io_lift_def io_return_def)

theorem process_results_json_rejected_witness:
  "py_getitem rejected_results ''code'' = Inr (JInt 1) \<and>
   return_code_success (WORKFLOW ! 0) (JInt 1) = Inr False \<and>
   process_results_json quiet_world rejected_results
     [(KStr ''date'', ''2020-01-01''), (KStr ''experiment'', ''trial1''), (KStr ''name'', ''n'')]
     (WORKFLOW ! 0) ''http://clowder/'' ''key'' request_resource [] = (Returns False, [])"
proof -
  have 1: "py_getitem rejected_results ''code'' = Inr (JInt 1)"
    by (simp add: py_getitem_def rejected_results_def)
  have 2: "return_code_success (WORKFLOW ! 0) (JInt 1) = Inr False"
    by (simp add: WORKFLOW_def code_is_zero_def py_int_def)
  from process_results_json_rejected
    [of rejected_results "JInt 1" "WORKFLOW ! 0" quiet_world
        "[(KStr ''date'', ''2020-01-01''), (KStr ''experiment'', ''trial1''), (KStr ''name'', ''n'')]"
        "''http://clowder/''" "''key''" request_resource "[]"] 1 2
  show ?thesis by blast
qed

text \<open>With an accepted code the same descriptor is published.\<close>

lemma accepted_results_publish:
  "process_results_json quiet_world accepted_results
     [(KStr ''date'', ''2020-01-01''), (KStr ''experiment'', ''trial1''), (KStr ''name'', ''n'')]
     (WORKFLOW ! 0) ''http://clowder/'' ''key'' request_resource [] =
   (Returns True,
    [GetDatasetIdByName ''2020-01-01_trial1_n'',
     CreateDataset ''http://clowder/'' ''2020-01-01_trial1_n'',
     UploadToDataset (JStr ''ds1'') (JStr ''/mnt/o.tif''),
     UploadDatasetMetadata (JStr ''ds1'')
       (JDict
         [(KStr ''@context'',
             JList [JStr ''https://clowder.ncsa.illinois.edu/contexts/metadata.jsonld'']),
          (KStr ''content'', JDict [(KStr ''runtime'', JInt 12)]),
          (KStr ''agent'',
             JDict [(KStr ''@type'', JStr ''cat:extractor''),
                    (KStr ''extractor_id'', JStr ''http://clowder/api/extractors/odm_workflow.jx''),
                    (KStr ''version'', JStr ''2.0''),
                    (KStr ''name'', JStr ''odm_workflow.jx'')]),
          (KStr ''dataset_id'', JStr ''ds1'')])])"
  by code_simp


text \<open>
  The success test of the module's steps is \<^verbatim>\<open>int(code) == 0\<close>, also for a code that is a
  text.
\<close>

lemma code_is_zero_of_text:
  "code_is_zero (JStr ''0'') = Inr True"
  "code_is_zero (JStr '' 0 '') = Inr True"
  "code_is_zero (JStr ''-0'') = Inr True"
  "code_is_zero (JStr ''1'') = Inr False"
  "code_is_zero (JStr ''1_0'') = Inr False"
  "code_is_zero (JStr ''abc'') = Inl ValueError"
  "code_is_zero (JStr []) = Inl ValueError"
  "code_is_zero (JStr ''1__0'') = Inl ValueError"
  "code_is_zero JNull = Inl TypeError"
  by code_simp+

section \<open>Key lookup\<close>


















section \<open>Credentials in the audit metadata\<close>














section \<open>Waiting for the child process\<close>

text \<open>
  Claim C6 says that a child that has not exited when the elapsed time passes the total
  timeout makes the wait fail with the timeout error. In \<open>boundary_world\<close> the clock passes
  the timeout between the test after the sleep and the next test of the loop condition:
  the loop then ends without raising, with no return code.
\<close>

theorem wait_loop_expires_silently:
  "wait_for_process boundary_world 3 [] =
     (Returns None, [Now, Now, ReadLine, Poll, Sleep 5, Now, Now])"
  by code_simp

text \<open>When the test after the sleep itself reads a time past the timeout, the wait raises.\<close>

lemma wait_loop_times_out:
  "wait_for_process late_world 3 [] =
     (Raises (RuntimeError ''Processing is running too long (''),
      [Now, Now, ReadLine, Poll, Sleep 5, Now])"
  by code_simp


section \<open>The cache hand-off between steps\<close>

lemma relocations_Nil: "relocations [] = []"
  by (simp add: relocations_def map_filter_def)

lemma relocations_append: "relocations (xs @ ys) = relocations xs @ relocations ys"
  by (simp add: relocations_def map_filter_def)

lemma relocations_outside: "relocation ev = None \<Longrightarrow> relocations [ev] = []"
  by (simp add: relocations_def map_filter_def)

lemma relocations_entered: "relocations [RelocateFiles env source] = [(env, source)]"
  by (simp add: relocations_def map_filter_def relocation_def)

lemma quiet_return: "quiet (io_return x)"
  by (simp add: quiet_def io_return_def relocations_Nil)

lemma quiet_raise: "quiet (io_raise e)"
  by (simp add: quiet_def io_raise_def relocations_Nil)

lemma quiet_out_of_fuel: "quiet (\<lambda>log. (OutOfFuel, log))"
  by (simp add: quiet_def relocations_Nil)

lemma quiet_lift: "quiet (io_lift r)"
  by (cases r) (simp_all add: io_lift_def quiet_return quiet_raise)

lemma quiet_call: "relocation ev = None \<Longrightarrow> quiet (io_call ev oracle)"
  by (auto simp: quiet_def io_call_def relocations_outside split: sum.splits)

lemma quiet_bind:
  assumes "quiet m" and "\<And>x. quiet (f x)"
  shows "quiet (io_bind m f)"
  unfolding quiet_def
proof (intro allI impI)
  fix log r log'
  assume a: "io_bind m f log = (r, log')"
  obtain r1 log1 where m: "m log = (r1, log1)" by (cases "m log")
  from assms(1) [unfolded quiet_def, rule_format, OF m]
  obtain evs1 where e1: "log1 = log @ evs1" "relocations evs1 = []"
    by blast
  show "\<exists>evs. log' = log @ evs \<and> relocations evs = []"
  proof (cases r1)
    case (Returns x)
    with a m have f: "f x log1 = (r, log')" by (simp add: io_bind_def)
    from assms(2) [of x, unfolded quiet_def, rule_format, OF f]
    obtain evs2 where "log' = log1 @ evs2" "relocations evs2 = []"
      by blast
    with e1 have "log' = log @ (evs1 @ evs2) \<and> relocations (evs1 @ evs2) = []"
      by (simp add: relocations_append)
    then show ?thesis by blast
  next
    case (Raises e)
    with a m have "log' = log1" by (simp add: io_bind_def)
    with e1 show ?thesis by blast
  next
    case OutOfFuel
    with a m have "log' = log1" by (simp add: io_bind_def)
    with e1 show ?thesis by blast
  qed
qed

lemma quiet_ignore_errors: "quiet m \<Longrightarrow> quiet (io_ignore_errors m)"
  unfolding quiet_def io_ignore_errors_def
  by (auto split: prod.splits outcome.splits)

lemma quiet_if: "quiet a \<Longrightarrow> quiet b \<Longrightarrow> quiet (if c then a else b)"
  by simp

lemma quiet_option:
  "quiet a \<Longrightarrow> (\<And>x. quiet (f x)) \<Longrightarrow> quiet (case v of None \<Rightarrow> a | Some x \<Rightarrow> f x)"
  by (cases v) simp_all

lemma quiet_source:
  "(\<And>rsrc. quiet (a rsrc)) \<Longrightarrow> (\<And>folder. quiet (b folder)) \<Longrightarrow> quiet c \<Longrightarrow>
   quiet (case source of FromResources rsrc \<Rightarrow> a rsrc | FromFolder folder \<Rightarrow> b folder
          | NoSource \<Rightarrow> c)"
  by (cases source) simp_all

lemmas quiet_intros = quiet_return quiet_raise quiet_lift quiet_call quiet_bind
  quiet_ignore_errors quiet_if quiet_option quiet_source

lemma quiet_create_folder_default_perms: "quiet (create_folder_default_perms w folder_path)"
  unfolding create_folder_default_perms_def
  by (intro quiet_intros) (simp_all add: relocation_def)

lemma quiet_copy_sources: "quiet (copy_sources w env dest_dir files updated)"
proof (induction files arbitrary: updated)
  case Nil
  show ?case by (simp add: quiet_return)
next
  case (Cons one_file rest)
  show ?case
    unfolding copy_sources.simps Let_def
    by (intro quiet_intros Cons.IH) (simp_all add: relocation_def)
qed

lemma quiet_setup_processing_step: "quiet (setup_processing_step w env out_folder)"
  unfolding setup_processing_step_def Let_def
  by (intro quiet_intros) (simp_all add: relocation_def)

lemma drain_output_Suc:
  "drain_output w (Suc fuel) =
     io_bind (io_call ReadLine (stdout_readline w))
       (\<lambda>line. if line \<noteq> [] then drain_output w fuel else io_return ())"
  by (rule ext) (simp add: io_bind_def io_return_def split: prod.splits outcome.splits)

lemma quiet_drain_output: "quiet (drain_output w fuel)"
proof (induction fuel)
  case 0
  have "drain_output w 0 = (\<lambda>log. (OutOfFuel, log))" by (rule ext) simp
  then show ?case by (simp only: quiet_out_of_fuel)
next
  case (Suc fuel)
  show ?case
    unfolding drain_output_Suc
    by (intro quiet_intros Suc.IH) (simp_all add: relocation_def)
qed

lemma wait_loop_Suc:
  "wait_loop w start_time (Suc fuel) returncode =
     io_bind (io_call Now (datetime_now w))
       (\<lambda>now.
          if \<not> elapsed_within_total start_time now then io_return returncode
          else case returncode of
                 Some code \<Rightarrow> io_return returncode
               | None \<Rightarrow>
                   io_bind (io_ignore_errors (drain_output w fuel))
                     (\<lambda>_.
                   io_bind (io_call Poll (proc_poll w))
                     (\<lambda>polled.
                   io_bind (io_call (Sleep PROC_WAIT_SLEEP_SEC)
                              (\<lambda>log. time_sleep w log PROC_WAIT_SLEEP_SEC))
                     (\<lambda>_.
                   io_bind (io_call Now (datetime_now w))
                     (\<lambda>processing_time.
                        if \<not> elapsed_within_total start_time processing_time
                        then io_raise (RuntimeError ''Processing is running too long ('')
                        else wait_loop w start_time fuel polled)))))"
  by (rule ext) (simp only: wait_loop.simps)

lemma quiet_wait_loop: "quiet (wait_loop w start_time fuel returncode)"
proof (induction fuel arbitrary: returncode)
  case 0
  have "wait_loop w start_time 0 returncode = (\<lambda>log. (OutOfFuel, log))" by (rule ext) simp
  then show ?case by (simp only: quiet_out_of_fuel)
next
  case (Suc fuel)
  show ?case
    unfolding wait_loop_Suc
    by (intro quiet_intros quiet_drain_output Suc.IH) (simp_all add: relocation_def)
qed

lemma quiet_wait_for_process: "quiet (wait_for_process w fuel)"
  unfolding wait_for_process_def
  by (intro quiet_intros quiet_wait_loop) (simp_all add: relocation_def)

lemma quiet_create_dataset: "quiet (create_dataset w host request_key name)"
  unfolding create_dataset_def
  by (intro quiet_intros) (simp_all add: relocation_def)

lemma quiet_update_file_metadata:
  "quiet (update_file_metadata w file_id replace_metadata metadata)"
  unfolding update_file_metadata_def
  by (intro quiet_intros) (simp_all add: relocation_def)

lemma quiet_update_dataset_metadata:
  "quiet (update_dataset_metadata w dataset_id replace_metadata container_metadata
            process_metadata)"
  unfolding update_dataset_metadata_def
  by (intro quiet_intros) (simp_all add: relocation_def)

lemma quiet_upload_each:
  "quiet (upload_each w dataset_id workflow_step host results uploaded_files)"
proof (induction results arbitrary: uploaded_files)
  case Nil
  show ?case by (simp add: quiet_return)
next
  case (Cons one_result rest)
  show ?case
    unfolding upload_each.simps
    by (intro quiet_intros quiet_update_file_metadata Cons.IH) (simp_all add: relocation_def)
qed

lemma quiet_upload_files: "quiet (upload_files w dataset_id file_results workflow_step host)"
  unfolding upload_files_def
  by (intro quiet_intros quiet_upload_each)

lemma quiet_process_result_file:
  "quiet (process_result_file w file_results workflow_step host rsrc)"
  unfolding process_result_file_def
  by (intro quiet_intros quiet_upload_files)

lemma quiet_upload_container_files:
  "quiet (upload_container_files w dataset_id container_results workflow_step host keys
            uploaded_files)"
proof (induction keys arbitrary: uploaded_files)
  case Nil
  show ?case by (simp add: quiet_return)
next
  case (Cons key keys)
  show ?case
    unfolding upload_container_files.simps
    by (intro quiet_intros quiet_upload_files Cons.IH)
qed

lemma quiet_process_result_dataset:
  "quiet (process_result_dataset w container_results info workflow_step process_metadata host
            request_key)"
  unfolding process_result_dataset_def
  by (intro quiet_intros quiet_create_dataset quiet_upload_container_files
        quiet_update_dataset_metadata) (simp_all add: relocation_def)

lemma quiet_process_file_keys:
  "quiet (process_file_keys w proc_results workflow_step host rsrc keys)"
proof (induction keys)
  case Nil
  show ?case by (simp add: quiet_return)
next
  case (Cons file_key keys)
  show ?case
    unfolding process_file_keys.simps
    by (intro quiet_intros quiet_process_result_file Cons.IH)
qed

lemma quiet_process_results_json:
  "quiet (process_results_json w proc_results info workflow_step host request_key rsrc)"
  unfolding process_results_json_def
  by (intro quiet_intros quiet_process_result_dataset quiet_process_file_keys)

lemma once_entered:
  assumes "\<And>x. quiet (f x)"
  shows "once (env, source) (io_bind (io_note (RelocateFiles env source)) f)"
  unfolding once_def
proof (intro allI impI)
  fix log r log'
  assume "io_bind (io_note (RelocateFiles env source)) f log = (r, log')"
  then have f: "f () (log @ [RelocateFiles env source]) = (r, log')"
    by (simp add: io_bind_def io_note_def)
  from assms [of "()", unfolded quiet_def, rule_format, OF f] obtain evs where
    e: "log' = (log @ [RelocateFiles env source]) @ evs" "relocations evs = []"
    by blast
  have "relocations (RelocateFiles env source # evs) =
        relocations [RelocateFiles env source] @ relocations evs"
    using relocations_append [of "[RelocateFiles env source]" evs] by simp
  with e have "log' = log @ (RelocateFiles env source # evs) \<and>
             relocations (RelocateFiles env source # evs) = [(env, source)]"
    by (simp add: relocations_entered)
  then show "\<exists>evs. log' = log @ evs \<and>
       (relocations evs = [(env, source)] \<or> (relocations evs = [] \<and> (\<forall>x. r \<noteq> Returns x)))"
    by blast
qed

lemma once_bind:
  assumes "once call m" and "\<And>x. quiet (f x)"
  shows "once call (io_bind m f)"
  unfolding once_def
proof (intro allI impI)
  fix log r log'
  assume a: "io_bind m f log = (r, log')"
  obtain r1 log1 where m: "m log = (r1, log1)" by (cases "m log")
  from assms(1) [unfolded once_def, rule_format, OF m]
  obtain evs1 where e1: "log1 = log @ evs1"
    "relocations evs1 = [call] \<or> (relocations evs1 = [] \<and> (\<forall>x. r1 \<noteq> Returns x))"
    by blast
  show "\<exists>evs. log' = log @ evs \<and>
       (relocations evs = [call] \<or> (relocations evs = [] \<and> (\<forall>x. r \<noteq> Returns x)))"
  proof (cases r1)
    case (Returns x)
    with a m have f: "f x log1 = (r, log')" by (simp add: io_bind_def)
    from assms(2) [of x, unfolded quiet_def, rule_format, OF f]
    obtain evs2 where e2: "log' = log1 @ evs2" "relocations evs2 = []"
      by blast
    from e1 Returns have "relocations evs1 = [call]" by blast
    with e1 e2 have "log' = log @ (evs1 @ evs2) \<and> relocations (evs1 @ evs2) = [call]"
      by (simp add: relocations_append)
    then show ?thesis by blast
  next
    case (Raises e)
    with a m have "log' = log1" "r = Raises e" by (simp_all add: io_bind_def)
    with e1 Raises show ?thesis by blast
  next
    case OutOfFuel
    with a m have "log' = log1" "r = OutOfFuel" by (simp_all add: io_bind_def)
    with e1 OutOfFuel show ?thesis by blast
  qed
qed

lemma once_relocate_files: "once (env, source) (relocate_files w script_dir env source)"
  unfolding relocate_files_def Let_def
  by (intro once_entered quiet_intros quiet_create_folder_default_perms quiet_copy_sources)
     (simp_all add: relocation_def)

lemma once_run_step:
  "once (env, source)
     (run_step w fuel script_dir py_lower encrypt py_repr rq current_step env source)"
  unfolding run_step_def Let_def
  by (intro once_bind once_relocate_files quiet_intros quiet_setup_processing_step
        quiet_wait_for_process quiet_process_results_json)
     (simp_all add: relocation_def)

lemma yields_return: "P x \<Longrightarrow> yields P (io_return x)"
  by (simp add: yields_def io_return_def)

lemma yields_raise: "yields P (io_raise e)"
  by (simp add: yields_def io_raise_def)

lemma yields_bind: "(\<And>x. yields P (f x)) \<Longrightarrow> yields P (io_bind m f)"
  by (auto simp: yields_def io_bind_def split: prod.splits outcome.splits)

lemma yields_if: "(c \<Longrightarrow> yields P a) \<Longrightarrow> (\<not> c \<Longrightarrow> yields P b) \<Longrightarrow> yields P (if c then a else b)"
  by simp

lemma yields_option:
  "yields P a \<Longrightarrow> (\<And>x. yields P (f x)) \<Longrightarrow> yields P (case v of None \<Rightarrow> a | Some x \<Rightarrow> f x)"
  by (cases v) simp_all

lemma run_step_keeps_cache_dir:
  "yields (\<lambda>env'. CACHE_DIR env' = CACHE_DIR env)
     (run_step w fuel script_dir py_lower encrypt py_repr rq current_step env source)"
  unfolding run_step_def Let_def
  by (intro yields_bind yields_if yields_option yields_raise yields_return) simp_all

lemma run_step_cache_dir:
  "run_step w fuel script_dir py_lower encrypt py_repr rq current_step env source log
     = (Returns env', log')
   \<Longrightarrow> CACHE_DIR env' = CACHE_DIR env"
  using run_step_keeps_cache_dir
    [of env w fuel script_dir py_lower encrypt py_repr rq current_step source]
  unfolding yields_def by blast

lemma chained_first: "chained source calls \<Longrightarrow> calls \<noteq> [] \<Longrightarrow> snd (calls ! 0) = source"
  by (cases calls) simp_all

lemma chained_next:
  "chained source calls \<Longrightarrow> Suc n < length calls \<Longrightarrow>
   snd (calls ! Suc n) = FromFolder (CACHE_DIR (fst (calls ! n)))"
proof (induction calls arbitrary: source n)
  case Nil
  then show ?case by simp
next
  case (Cons call rest)
  from Cons.prems(1) have r: "chained (FromFolder (CACHE_DIR (fst call))) rest" by simp
  show ?case
  proof (cases n)
    case 0
    with Cons.prems(2) have "rest \<noteq> []" by auto
    from chained_first [OF r this] 0 show ?thesis by simp
  next
    case (Suc m)
    with Cons.prems(2) have "Suc m < length rest" by simp
    from Cons.IH [OF r this] Suc show ?thesis by simp
  qed
qed

lemma run_steps_relocations:
  "run_steps w fuel script_dir py_lower encrypt py_repr rq steps st log = (out, log') \<Longrightarrow>
   \<exists>evs. log' = log @ evs \<and>
     chained (staging_source_for (ls_step_number st + 1) (rq_resource rq)
                (case ls_env st of Some env \<Rightarrow> Some (CACHE_DIR env)
                 | None \<Rightarrow> ls_previous_step_cache_dir st))
       (relocations evs) \<and>
     length (relocations evs) \<le> length steps \<and>
     (out = Returns () \<longrightarrow> length (relocations evs) = length steps) \<and>
     (\<forall>n < length (relocations evs).
        create_env_json (rq_working_folder rq) (rq_working_subfolder rq) (rq_named_volume rq)
          (steps ! n) (rq_resource rq) = Inr (fst (relocations evs ! n)))"
proof (induction steps arbitrary: st log)
  case Nil
  then have "log' = log @ [] \<and> relocations [] = []"
    by (simp add: io_return_def relocations_Nil)
  then show ?case
    by (intro exI [of _ "[]"]) simp
next
  case (Cons current_step rest)
  let ?created = "create_env_json (rq_working_folder rq) (rq_working_subfolder rq)
        (rq_named_volume rq) current_step (rq_resource rq)"
  let ?previous = "case ls_env st of Some env \<Rightarrow> Some (CACHE_DIR env)
            | None \<Rightarrow> ls_previous_step_cache_dir st"
  let ?source = "staging_source_for (ls_step_number st + 1) (rq_resource rq) ?previous"
  show ?case
  proof (cases ?created)
    case (Inl e)
    with Cons.prems have "log' = log @ []" "out = Raises e"
      by (simp_all add: Let_def io_bind_def io_lift_def io_raise_def)
    then show ?thesis
      by (intro exI [of _ "[]"]) (simp add: relocations_Nil)
  next
    case (Inr env)
    obtain r log1 where rs:
      "run_step w fuel script_dir py_lower encrypt py_repr rq current_step env ?source log
         = (r, log1)"
      by (cases "run_step w fuel script_dir py_lower encrypt py_repr rq current_step env
                   ?source log")
    from once_run_step [of env ?source w fuel script_dir py_lower encrypt py_repr rq current_step,
        unfolded once_def, rule_format, OF rs]
    obtain evs1 where e1: "log1 = log @ evs1"
      "relocations evs1 = [(env, ?source)] \<or>
       (relocations evs1 = [] \<and> (\<forall>x. r \<noteq> Returns x))"
      by blast
    show ?thesis
    proof (cases r)
      case (Returns env')
      let ?st1 = "\<lparr> ls_env = Some env', ls_step_number = ls_step_number st + 1,
                    ls_previous_step_cache_dir = ?previous \<rparr>"
      from Cons.prems Inr rs Returns
      have rec: "run_steps w fuel script_dir py_lower encrypt py_repr rq rest ?st1 log1
                 = (out, log')"
        by (simp add: Let_def io_bind_def io_lift_def io_return_def)
      from run_step_cache_dir rs Returns have cd: "CACHE_DIR env' = CACHE_DIR env" by blast
      from e1 Returns have r1: "relocations evs1 = [(env, ?source)]" by blast
      have src1: "staging_source_for (ls_step_number ?st1 + 1) (rq_resource rq)
                (case ls_env ?st1 of Some env \<Rightarrow> Some (CACHE_DIR env)
                 | None \<Rightarrow> ls_previous_step_cache_dir ?st1) = FromFolder (CACHE_DIR env)"
        by (simp add: staging_source_for_def cd)
      from Cons.IH [OF rec] obtain evs2 where e2: "log' = log1 @ evs2"
        and c2: "chained (staging_source_for (ls_step_number ?st1 + 1) (rq_resource rq)
                (case ls_env ?st1 of Some env \<Rightarrow> Some (CACHE_DIR env)
                 | None \<Rightarrow> ls_previous_step_cache_dir ?st1)) (relocations evs2)"
        and l2: "length (relocations evs2) \<le> length rest"
        and f2: "out = Returns () \<longrightarrow> length (relocations evs2) = length rest"
        and n2: "\<forall>n < length (relocations evs2).
            create_env_json (rq_working_folder rq) (rq_working_subfolder rq)
              (rq_named_volume rq) (rest ! n) (rq_resource rq)
            = Inr (fst (relocations evs2 ! n))"
        by blast
      have all: "relocations (evs1 @ evs2) = (env, ?source) # relocations evs2"
        by (simp add: relocations_append r1)
      have c: "chained ?source (relocations (evs1 @ evs2))"
        using c2 by (simp only: all src1) simp
      have n: "\<forall>n < length (relocations (evs1 @ evs2)).
            create_env_json (rq_working_folder rq) (rq_working_subfolder rq)
              (rq_named_volume rq) ((current_step # rest) ! n) (rq_resource rq)
            = Inr (fst (relocations (evs1 @ evs2) ! n))"
      proof (intro allI impI)
        fix n assume "n < length (relocations (evs1 @ evs2))"
        then show "create_env_json (rq_working_folder rq) (rq_working_subfolder rq)
              (rq_named_volume rq) ((current_step # rest) ! n) (rq_resource rq)
            = Inr (fst (relocations (evs1 @ evs2) ! n))"
          using Inr n2 by (cases n) (simp_all add: all)
      qed
      from e1 e2 have "log' = log @ (evs1 @ evs2)" by simp
      moreover from l2 have "length (relocations (evs1 @ evs2)) \<le> length (current_step # rest)"
        by (simp add: all)
      moreover from f2
      have "out = Returns () \<longrightarrow>
            length (relocations (evs1 @ evs2)) = length (current_step # rest)"
        by (simp add: all)
      ultimately show ?thesis
        using c n by (intro exI [of _ "evs1 @ evs2"] conjI)
    next
      case (Raises e)
      with Cons.prems Inr rs have o: "log' = log1" "out = Raises e"
        by (simp_all add: Let_def io_bind_def io_lift_def io_return_def)
      from e1(2) have "chained ?source (relocations evs1) \<and>
          length (relocations evs1) \<le> length (current_step # rest) \<and>
          (\<forall>n < length (relocations evs1).
            create_env_json (rq_working_folder rq) (rq_working_subfolder rq)
              (rq_named_volume rq) ((current_step # rest) ! n) (rq_resource rq)
            = Inr (fst (relocations evs1 ! n)))"
        using Inr by auto
      with o e1(1) show ?thesis
        by (intro exI [of _ evs1]) simp
    next
      case OutOfFuel
      with Cons.prems Inr rs have o: "log' = log1" "out = OutOfFuel"
        by (simp_all add: Let_def io_bind_def io_lift_def io_return_def)
      from e1(2) have "chained ?source (relocations evs1) \<and>
          length (relocations evs1) \<le> length (current_step # rest) \<and>
          (\<forall>n < length (relocations evs1).
            create_env_json (rq_working_folder rq) (rq_working_subfolder rq)
              (rq_named_volume rq) ((current_step # rest) ! n) (rq_resource rq)
            = Inr (fst (relocations evs1 ! n)))"
        using Inr by auto
      with o e1(1) show ?thesis
        by (intro exI [of _ evs1]) simp
    qed
  qed
qed

lemma process_message_cases:
  assumes "process_message w fuel script_dir py_lower encrypt py_repr args steps host secret_key
             rsrc log = (out, log')"
  shows "(log' = log \<and> out \<noteq> Returns ()) \<or>
         (\<exists>evs0. log' = log @ evs0 \<and> relocations evs0 = [] \<and> out \<noteq> Returns ()) \<or>
         (\<exists>rq evs0. rq_resource rq = rsrc \<and> relocations evs0 = [] \<and>
            run_steps w fuel script_dir py_lower encrypt py_repr rq steps
              \<lparr> ls_env = None, ls_step_number = 0, ls_previous_step_cache_dir = None \<rparr>
              (log @ evs0) = (out, log'))"
proof (cases "named_volume args")
  case None
  with assms show ?thesis by (auto simp: process_message_def io_raise_def)
next
  case (Some volume)
  note v = Some
  show ?thesis
  proof (cases "volume = []")
    case True
    with assms v show ?thesis by (auto simp: process_message_def io_raise_def)
  next
    case vne: False
    show ?thesis
    proof (cases "working_space args")
      case None
      with assms v vne show ?thesis by (auto simp: process_message_def io_raise_def)
    next
      case (Some space)
      note sp = Some
      show ?thesis
      proof (cases "space = []")
        case True
        with assms v vne sp show ?thesis by (auto simp: process_message_def io_raise_def)
      next
        case sne: False
        let ?prep = "io_bind (io_call (MkDTemp space) (\<lambda>log. tempfile_mkdtemp w log space))
                      (\<lambda>working_folder.
                         io_bind (create_folder_default_perms w working_folder)
                           (\<lambda>_. io_return working_folder))"
        have q: "quiet ?prep"
          by (intro quiet_intros quiet_create_folder_default_perms) (simp add: relocation_def)
        obtain r log0 where p: "?prep log = (r, log0)" by (cases "?prep log")
        from q [unfolded quiet_def, rule_format, OF p]
        obtain evs0 where e0: "log0 = log @ evs0" "relocations evs0 = []"
          by blast
        have pm: "process_message w fuel script_dir py_lower encrypt py_repr args steps host
                    secret_key rsrc =
                  io_bind ?prep
                    (\<lambda>working_folder.
                       run_steps w fuel script_dir py_lower encrypt py_repr
                         \<lparr> rq_host = host, rq_secret_key = secret_key, rq_resource = rsrc,
                           rq_named_volume = volume, rq_working_folder = working_folder,
                           rq_working_subfolder = drop (length space) working_folder \<rparr>
                         steps
                         \<lparr> ls_env = None, ls_step_number = 0,
                           ls_previous_step_cache_dir = None \<rparr>)"
          using v vne sp sne
          by (auto simp: process_message_def io_bind_def io_return_def fun_eq_iff
              split: prod.splits outcome.splits)
        show ?thesis
        proof (cases r)
          case (Returns working_folder)
          with assms p e0 pm
          have "run_steps w fuel script_dir py_lower encrypt py_repr
                     \<lparr> rq_host = host, rq_secret_key = secret_key, rq_resource = rsrc,
                       rq_named_volume = volume, rq_working_folder = working_folder,
                       rq_working_subfolder = drop (length space) working_folder \<rparr>
                     steps
                     \<lparr> ls_env = None, ls_step_number = 0, ls_previous_step_cache_dir = None \<rparr>
                     (log @ evs0) = (out, log')"
            by (simp add: io_bind_def)
          with e0(2) show ?thesis
            by (intro disjI2 exI [of _ "\<lparr> rq_host = host, rq_secret_key = secret_key,
                       rq_resource = rsrc,
                       rq_named_volume = volume, rq_working_folder = working_folder,
                       rq_working_subfolder = drop (length space) working_folder \<rparr>"]
                   exI [of _ evs0]) simp
        next
          case (Raises e)
          with assms p e0 pm have "log' = log @ evs0" "out = Raises e"
            by (simp_all add: io_bind_def)
          with e0(2) show ?thesis by blast
        next
          case OutOfFuel
          with assms p e0 pm have "log' = log @ evs0" "out = OutOfFuel"
            by (simp_all add: io_bind_def)
          with e0(2) show ?thesis by blast
        qed
      qed
    qed
  qed
qed

text \<open>
  Claim C2. In every run of \<^verbatim>\<open>process_message\<close>, over any pipeline, take the calls of
  \<^verbatim>\<open>relocate_files\<close> that the run adds to the log, in order, each with the environment
  and the staging source the function was called with. The first stages from the
  request's resource, and call \<open>n + 1\<close> stages from the folder \<^verbatim>\<open>CACHE_DIR\<close> of the
  environment of call \<open>n\<close>. The environment of call \<open>n\<close> is the one
  \<^verbatim>\<open>create_env_json\<close> built for step \<open>n\<close>; there is at most one call for each step, and
  a run that returns has made one for every step.
\<close>

theorem cache_handoff:
  "process_message w fuel script_dir py_lower encrypt py_repr args steps host secret_key rsrc log
     = (out, log') \<longrightarrow>
   (\<exists>evs. log' = log @ evs \<and>
      (relocations evs \<noteq> [] \<longrightarrow> snd (relocations evs ! 0) = FromResources rsrc) \<and>
      (\<forall>n. Suc n < length (relocations evs) \<longrightarrow>
         snd (relocations evs ! Suc n) = FromFolder (CACHE_DIR (fst (relocations evs ! n)))) \<and>
      length (relocations evs) \<le> length steps \<and>
      (out = Returns () \<longrightarrow> length (relocations evs) = length steps) \<and>
      (\<exists>working_folder working_subfolder volume. \<forall>n < length (relocations evs).
         create_env_json working_folder working_subfolder volume (steps ! n) rsrc
           = Inr (fst (relocations evs ! n))))"
proof
  assume a: "process_message w fuel script_dir py_lower encrypt py_repr args steps host
               secret_key rsrc log = (out, log')"
  let ?goal = "\<lambda>evs. log' = log @ evs \<and>
      (relocations evs \<noteq> [] \<longrightarrow> snd (relocations evs ! 0) = FromResources rsrc) \<and>
      (\<forall>n. Suc n < length (relocations evs) \<longrightarrow>
         snd (relocations evs ! Suc n) = FromFolder (CACHE_DIR (fst (relocations evs ! n)))) \<and>
      length (relocations evs) \<le> length steps \<and>
      (out = Returns () \<longrightarrow> length (relocations evs) = length steps) \<and>
      (\<exists>working_folder working_subfolder volume. \<forall>n < length (relocations evs).
         create_env_json working_folder working_subfolder volume (steps ! n) rsrc
           = Inr (fst (relocations evs ! n)))"
  from process_message_cases [OF a]
  consider (early) "log' = log \<and> out \<noteq> Returns ()"
    | (prep) evs0 where "log' = log @ evs0" "relocations evs0 = []" "out \<noteq> Returns ()"
    | (run) rq evs0 where "rq_resource rq = rsrc" "relocations evs0 = []"
        "run_steps w fuel script_dir py_lower encrypt py_repr rq steps
              \<lparr> ls_env = None, ls_step_number = 0, ls_previous_step_cache_dir = None \<rparr>
              (log @ evs0) = (out, log')"
    by blast
  then show "\<exists>evs. ?goal evs"
  proof cases
    case early
    then have "?goal []" by (simp add: relocations_Nil)
    then show ?thesis by (rule exI)
  next
    case prep
    then have "?goal evs0" by simp
    then show ?thesis by (rule exI)
  next
    case run
    from run_steps_relocations [OF run(3)] obtain evs where e: "log' = (log @ evs0) @ evs"
      and c: "chained (FromResources (rq_resource rq)) (relocations evs)"
      and l: "length (relocations evs) \<le> length steps"
      and f: "out = Returns () \<longrightarrow> length (relocations evs) = length steps"
      and n: "\<forall>n < length (relocations evs).
        create_env_json (rq_working_folder rq) (rq_working_subfolder rq) (rq_named_volume rq)
          (steps ! n) (rq_resource rq) = Inr (fst (relocations evs ! n))"
      by (auto simp: staging_source_for_def)
    have same: "relocations (evs0 @ evs) = relocations evs"
      by (simp add: relocations_append run(2))
    from n run(1) have n': "\<exists>working_folder working_subfolder volume.
         \<forall>n < length (relocations evs).
         create_env_json working_folder working_subfolder volume (steps ! n) rsrc
           = Inr (fst (relocations evs ! n))" by blast
    from e chained_first [OF c] chained_next [OF c] l f n' run(1)
    have "?goal (evs0 @ evs)"
      unfolding same by simp
    then show ?thesis by (rule exI)
  qed
qed

lemma quiet_run_relocations:
  "fst quiet_run = Returns ()"
  "length (relocations (snd quiet_run)) = 2"
  "CACHE_DIR (fst (relocations (snd quiet_run) ! 0)) = ''/mnt/tmpjhvq63gh/odm_workflow/cache/''"
  by code_simp+

theorem cache_handoff_witness:
  "snd (relocations (snd quiet_run) ! 0) = FromResources request_resource \<and>
   snd (relocations (snd quiet_run) ! Suc 0) = FromFolder ''/mnt/tmpjhvq63gh/odm_workflow/cache/'' \<and>
   length (relocations (snd quiet_run)) = length WORKFLOW"
proof -
  have "process_message quiet_world 3 ''/home/extractor'' lower failing_encrypt question_repr
       request_args WORKFLOW ''http://clowder/'' ''key'' request_resource []
     = (fst quiet_run, snd quiet_run)"
    by (simp add: quiet_run_def)
  from cache_handoff [THEN mp, OF this] quiet_run_relocations
  show ?thesis by auto
qed

end
